theory Spec2Isabelle
  imports Main
begin

section \<open>The id-match rule of eslint-plugin-canonical\<close>

text \<open>
  A shallow embedding of the rule \<open>id-match\<close> (\<open>src/unnamed/part_000\<close>, lines 127 to 461):
  the closure built by \<open>create\<close>, the helpers \<open>isInvalid\<close>, \<open>shouldReport\<close>, \<open>report\<close> and
  \<open>isInsideObjectPattern\<close>, and the single entry \<open>Identifier\<close> of the visitor map.
\<close>

subsection \<open>Syntax trees\<close>

text \<open>
  The rule reads trees of type \<open>TSESTree.Node\<close>, a union tagged by the field \<open>type\<close>.
  The tags the rule compares with are constructors of \<open>node_type\<close>; every other tag is
  \<open>OtherType\<close> with its text.
\<close>

datatype node_type =
    Identifier
  | PrivateIdentifier
  | MemberExpression
  | AssignmentExpression
  | Property
  | AssignmentPattern
  | ObjectPattern
  | ImportSpecifier
  | ImportDefaultSpecifier
  | ImportNamespaceSpecifier
  | PropertyDefinition
  | CallExpression
  | NewExpression
  | FunctionDeclaration
  | VariableDeclarator
  | OtherType string

type_synonym range = "nat \<times> nat"

text \<open>
  A string of the program (a name, a pattern, a message) is the list of its code points:
  the flag \<open>u\<close> makes the host read both the pattern and the input by code points.
  \<open>js\<close> writes such a string with the characters of a literal. The tags of the node types,
  the keys of \<open>reportedNodes\<close> (digits and a comma) and the message of the thrown error
  hold ASCII characters only and stay of type \<open>string\<close>.
\<close>

type_synonym jsstring = "nat list"

definition cp :: "char \<Rightarrow> nat" where
  "cp c = of_char c"

definition js :: "string \<Rightarrow> jsstring" where
  "js s = map cp s"

text \<open>
  One constructor for each member of the union whose fields the rule reads, with those
  fields in the order the host visits them:
  \<^item> \<open>MemberExpressionNode range object property\<close>,
  \<^item> \<open>AssignmentExpressionNode range left right\<close>,
  \<^item> \<open>PropertyNode range key value shorthand\<close>,
  \<^item> \<open>AssignmentPatternNode range left right\<close>,
  \<^item> \<open>ObjectPatternNode range properties\<close>,
  \<^item> \<open>ImportSpecifierNode range imported local\<close>, the other two specifiers with \<open>local\<close>,
  \<^item> \<open>PropertyDefinitionNode range key value\<close>,
  \<^item> \<open>CallExpressionNode range callee arguments\<close> and \<open>NewExpressionNode\<close> alike,
  \<^item> \<open>FunctionDeclarationNode range children\<close> (the name, the parameters, the body),
  \<^item> \<open>VariableDeclaratorNode range id init\<close>,
  \<^item> \<open>OtherNode tag range children\<close> for every other kind: the rule reads only its
    \<open>type\<close>, \<open>range\<close> and \<open>parent\<close>.
\<close>

datatype node =
    IdentifierNode range jsstring
  | PrivateIdentifierNode range jsstring
  | MemberExpressionNode range node node
  | AssignmentExpressionNode range node node
  | PropertyNode range node node bool
  | AssignmentPatternNode range node node
  | ObjectPatternNode range "node list"
  | ImportSpecifierNode range node node
  | ImportDefaultSpecifierNode range node
  | ImportNamespaceSpecifierNode range node
  | PropertyDefinitionNode range node "node option"
  | CallExpressionNode range node "node list"
  | NewExpressionNode range node "node list"
  | FunctionDeclarationNode range "node list"
  | VariableDeclaratorNode range node "node option"
  | OtherNode string range "node list"

fun type_of :: "node \<Rightarrow> node_type" where
  "type_of (IdentifierNode r n) = Identifier"
| "type_of (PrivateIdentifierNode r n) = PrivateIdentifier"
| "type_of (MemberExpressionNode r obj prop) = MemberExpression"
| "type_of (AssignmentExpressionNode r l rt) = AssignmentExpression"
| "type_of (PropertyNode r k v s) = Property"
| "type_of (AssignmentPatternNode r l rt) = AssignmentPattern"
| "type_of (ObjectPatternNode r ps) = ObjectPattern"
| "type_of (ImportSpecifierNode r imp loc) = ImportSpecifier"
| "type_of (ImportDefaultSpecifierNode r loc) = ImportDefaultSpecifier"
| "type_of (ImportNamespaceSpecifierNode r loc) = ImportNamespaceSpecifier"
| "type_of (PropertyDefinitionNode r k v) = PropertyDefinition"
| "type_of (CallExpressionNode r c as) = CallExpression"
| "type_of (NewExpressionNode r c as) = NewExpression"
| "type_of (FunctionDeclarationNode r cs) = FunctionDeclaration"
| "type_of (VariableDeclaratorNode r i v) = VariableDeclarator"
| "type_of (OtherNode t r cs) = OtherType t"

fun range_of :: "node \<Rightarrow> range" where
  "range_of (IdentifierNode r n) = r"
| "range_of (PrivateIdentifierNode r n) = r"
| "range_of (MemberExpressionNode r obj prop) = r"
| "range_of (AssignmentExpressionNode r l rt) = r"
| "range_of (PropertyNode r k v s) = r"
| "range_of (AssignmentPatternNode r l rt) = r"
| "range_of (ObjectPatternNode r ps) = r"
| "range_of (ImportSpecifierNode r imp loc) = r"
| "range_of (ImportDefaultSpecifierNode r loc) = r"
| "range_of (ImportNamespaceSpecifierNode r loc) = r"
| "range_of (PropertyDefinitionNode r k v) = r"
| "range_of (CallExpressionNode r c as) = r"
| "range_of (NewExpressionNode r c as) = r"
| "range_of (FunctionDeclarationNode r cs) = r"
| "range_of (VariableDeclaratorNode r i v) = r"
| "range_of (OtherNode t r cs) = r"

text \<open>The child nodes, in the order of the host's visitor keys.\<close>

fun children :: "node \<Rightarrow> node list" where
  "children (IdentifierNode r n) = []"
| "children (PrivateIdentifierNode r n) = []"
| "children (MemberExpressionNode r obj prop) = [obj, prop]"
| "children (AssignmentExpressionNode r l rt) = [l, rt]"
| "children (PropertyNode r k v s) = [k, v]"
| "children (AssignmentPatternNode r l rt) = [l, rt]"
| "children (ObjectPatternNode r ps) = ps"
| "children (ImportSpecifierNode r imp loc) = [imp, loc]"
| "children (ImportDefaultSpecifierNode r loc) = [loc]"
| "children (ImportNamespaceSpecifierNode r loc) = [loc]"
| "children (PropertyDefinitionNode r k v) = k # (case v of None \<Rightarrow> [] | Some x \<Rightarrow> [x])"
| "children (CallExpressionNode r c as) = c # as"
| "children (NewExpressionNode r c as) = c # as"
| "children (FunctionDeclarationNode r cs) = cs"
| "children (VariableDeclaratorNode r i v) = i # (case v of None \<Rightarrow> [] | Some x \<Rightarrow> [x])"
| "children (OtherNode t r cs) = cs"

text \<open>
  The probes \<open>'name' in n\<close> and \<open>'left' in n\<close> of the source, with the field's value:
  \<open>None\<close> where the member of the union has no such field.
\<close>

fun name_of :: "node \<Rightarrow> jsstring option" where
  "name_of (IdentifierNode r n) = Some n"
| "name_of (PrivateIdentifierNode r n) = Some n"
| "name_of other = None"

fun left_of :: "node \<Rightarrow> node option" where
  "left_of (AssignmentExpressionNode r l rt) = Some l"
| "left_of (AssignmentPatternNode r l rt) = Some l"
| "left_of other = None"

text \<open>\<open>'key' in n\<close>, with the key.\<close>

fun key_of :: "node \<Rightarrow> node option" where
  "key_of (PropertyNode r k v s) = Some k"
| "key_of (PropertyDefinitionNode r k v) = Some k"
| "key_of other = None"

text \<open>
  A node object is a position in the tree: the list of child indices that leads from the
  root to it. \<open>node.parent\<close> is the position one step up, so two positions are the same
  object exactly when their paths are equal. \<open>resolve\<close> returns the node at a path
  followed by its parent, its grandparent and so on up to the root, or \<open>None\<close> when the
  path leaves the tree.
\<close>

type_synonym path = "nat list"

fun descend :: "node list \<Rightarrow> path \<Rightarrow> node list option" where
  "descend chain [] = Some chain"
| "descend [] (i # rest) = None"
| "descend (n # up) (i # rest) =
     (if i < length (children n) then descend (children n ! i # n # up) rest else None)"

definition resolve :: "node \<Rightarrow> path \<Rightarrow> node list option" where
  "resolve root p = descend [root] p"

text \<open>The node at a position, \<open>node.parent\<close> and \<open>node.parent.parent\<close>.\<close>

definition node_at :: "node \<Rightarrow> path \<Rightarrow> node option" where
  "node_at root p = (case resolve root p of Some (n # up) \<Rightarrow> Some n | other \<Rightarrow> None)"

definition parent_at :: "node \<Rightarrow> path \<Rightarrow> node option" where
  "parent_at root p = (case resolve root p of Some (n # parent # up) \<Rightarrow> Some parent | other \<Rightarrow> None)"

definition grandparent_at :: "node \<Rightarrow> path \<Rightarrow> node option" where
  "grandparent_at root p =
     (case resolve root p of Some (n # parent # g # up) \<Rightarrow> Some g | other \<Rightarrow> None)"

text \<open>
  \<open>parent.key === node\<close> and \<open>parent.right === node\<close>: the node is the child in the slot of
  that field. \<open>slot\<close> is the node's index among its parent's children.
\<close>

fun is_key_of :: "node \<Rightarrow> nat \<Rightarrow> bool" where
  "is_key_of (PropertyNode r k v s) slot = (slot = 0)"
| "is_key_of (PropertyDefinitionNode r k v) slot = (slot = 0)"
| "is_key_of other slot = False"

fun is_right_of :: "node \<Rightarrow> nat \<Rightarrow> bool" where
  "is_right_of (AssignmentExpressionNode r l rt) slot = (slot = 1)"
| "is_right_of (AssignmentPatternNode r l rt) slot = (slot = 1)"
| "is_right_of other slot = False"

subsection \<open>Diagnostics and the state of one run\<close>

datatype MessageIds = notMatch | notMatchPrivate

text \<open>What \<open>context.report\<close> receives: \<open>data.name\<close>, \<open>data.pattern\<close>, \<open>messageId\<close>, \<open>node\<close>.\<close>

record diagnostic =
  data_name :: "jsstring option"
  data_pattern :: jsstring
  messageId :: MessageIds
  reported :: node

text \<open>
  The state a run mutates: the diagnostics handed to the host, in order, and the set
  \<open>reportedNodes\<close> of stringified ranges.
\<close>

record state =
  reports :: "diagnostic list"
  reportedNodes :: "string set"

definition fresh :: state where
  "fresh = \<lparr>reports = [], reportedNodes = {}\<rparr>"

datatype error = Error string | SyntaxError

datatype completion = Normal | Return | Throw error

text \<open>\<open>node.range.toString()\<close>: the two offsets in decimal, joined by a comma.\<close>

definition digit :: "nat \<Rightarrow> char" where
  "digit d = char_of (48 + d)"

function toString_nat :: "nat \<Rightarrow> string" where
  "toString_nat n = (if n < 10 then [digit n] else toString_nat (n div 10) @ [digit (n mod 10)])"
  by pat_completeness auto
termination
  by (relation "measure id") auto

declare toString_nat.simps [simp del]

definition range_toString :: "range \<Rightarrow> string" where
  "range_toString r = toString_nat (fst r) @ '','' @ toString_nat (snd r)"

subsection \<open>The host's regular expressions\<close>

text \<open>
  \<open>new RegExp(pattern, 'u')\<close> and \<open>regexp.test(name)\<close> belong to the JavaScript host. A
  compiled expression is its matcher: \<open>matcher re s i\<close> says that the pattern matches the
  input \<open>s\<close> from the index \<open>i\<close> on, up to some later index.
\<close>

datatype RegExp = RegExp (matcher: "jsstring \<Rightarrow> nat \<Rightarrow> bool")

text \<open>
  \<open>test\<close> is the loop of \<open>RegExpBuiltinExec\<close>. The flags \<open>g\<close> and \<open>y\<close> are absent, so that
  it neither reads nor writes the field \<open>lastIndex\<close> of the expression: \<open>lastIndex\<close> starts
  at 0; beyond the end of the input the result is \<open>null\<close>; otherwise the matcher is tried at
  \<open>lastIndex\<close>, and after a failure \<open>lastIndex\<close> moves one code point on.
\<close>

function RegExpBuiltinExec :: "(jsstring \<Rightarrow> nat \<Rightarrow> bool) \<Rightarrow> jsstring \<Rightarrow> nat \<Rightarrow> bool" where
  "RegExpBuiltinExec m s lastIndex =
     (if lastIndex > length s then False
      else if m s lastIndex then True
      else RegExpBuiltinExec m s (Suc lastIndex))"
  by pat_completeness auto
termination
  by (relation "measure (\<lambda>(m, s, lastIndex). Suc (length s) - lastIndex)") auto

declare RegExpBuiltinExec.simps [simp del]

definition test :: "RegExp \<Rightarrow> jsstring \<Rightarrow> bool" where
  "test re s = RegExpBuiltinExec (matcher re) s 0"

text \<open>
  What the host computes is written out for a fragment of its pattern language: the
  assertions \<open>^\<close> and \<open>$\<close>, the negative lookahead \<open>(?!c)\<close> of one literal character, and
  the atoms (a literal character, \<open>.\<close>, a character class of characters and ranges, negated
  or not), each atom alone or under \<open>*\<close>, \<open>+\<close> or \<open>?\<close>. For every other pattern the answer
  of the host is a parameter, see \<open>RegExp_u\<close>.
\<close>

datatype rx_atom = Chr nat | Dot | CharClass bool "(nat \<times> nat) list"

datatype rx_term =
  Bol | Eol | NotBefore rx_atom | One rx_atom | Star rx_atom | Plus rx_atom | Opt rx_atom

text \<open>The line terminators: LF, CR, LINE SEPARATOR and PARAGRAPH SEPARATOR.\<close>

definition is_LineTerminator :: "nat \<Rightarrow> bool" where
  "is_LineTerminator c = (c = 0x0A \<or> c = 0x0D \<or> c = 0x2028 \<or> c = 0x2029)"

fun atom_matches :: "rx_atom \<Rightarrow> nat \<Rightarrow> bool" where
  "atom_matches (Chr c) x = (x = c)"
| "atom_matches Dot x = (\<not> is_LineTerminator x)"
| "atom_matches (CharClass negated ranges) x =
     (negated \<noteq> list_ex (\<lambda>(lo, hi). lo \<le> x \<and> x \<le> hi) ranges)"

text \<open>
  \<open>match_here ts at_start s\<close>: the terms \<open>ts\<close> match a prefix of the rest \<open>s\<close> of the input;
  \<open>at_start\<close> says that \<open>s\<close> is the whole input. Without the flag \<open>m\<close>, \<open>^\<close> holds only
  at the start and \<open>$\<close> only at the end of the input. A negative lookahead holds where
  its atom does not match the next code point.
\<close>

fun match_here :: "rx_term list \<Rightarrow> bool \<Rightarrow> jsstring \<Rightarrow> bool" where
  "match_here [] at_start s = True"
| "match_here (Bol # ts) at_start s = (at_start \<and> match_here ts at_start s)"
| "match_here (Eol # ts) at_start s = (s = [] \<and> match_here ts at_start s)"
| "match_here (NotBefore a # ts) at_start [] = match_here ts at_start []"
| "match_here (NotBefore a # ts) at_start (c # cs) =
     (\<not> atom_matches a c \<and> match_here ts at_start (c # cs))"
| "match_here (One a # ts) at_start [] = False"
| "match_here (One a # ts) at_start (c # cs) = (atom_matches a c \<and> match_here ts False cs)"
| "match_here (Star a # ts) at_start [] = match_here ts at_start []"
| "match_here (Star a # ts) at_start (c # cs) =
     (match_here ts at_start (c # cs) \<or> (atom_matches a c \<and> match_here (Star a # ts) False cs))"
| "match_here (Plus a # ts) at_start [] = False"
| "match_here (Plus a # ts) at_start (c # cs) =
     (atom_matches a c \<and> match_here (Star a # ts) False cs)"
| "match_here (Opt a # ts) at_start [] = match_here ts at_start []"
| "match_here (Opt a # ts) at_start (c # cs) =
     (match_here ts at_start (c # cs) \<or> (atom_matches a c \<and> match_here ts False cs))"

text \<open>The compiled expression of the terms \<open>ts\<close>.\<close>

definition RegExp_of :: "rx_term list \<Rightarrow> RegExp" where
  "RegExp_of ts = RegExp (\<lambda>s i. match_here ts (i = 0) (drop i s))"

text \<open>Reading a pattern of the fragment. \<open>None\<close>: the pattern is outside the fragment.\<close>

datatype token = TBol | TEol | TNotBefore rx_atom | TAtom rx_atom | TStar | TPlus | TOpt

definition SyntaxCharacter :: "nat \<Rightarrow> bool" where
  "SyntaxCharacter c = (c \<in> set (js ''^$.*+?()[]{}|'') \<or> c = 0x5C)"

fun class_ranges :: "jsstring \<Rightarrow> (nat \<times> nat) list option" where
  "class_ranges (lo # d # hi # rest) =
     (if d = cp CHR ''-'' then
        (if lo \<le> hi then map_option ((#) (lo, hi)) (class_ranges rest) else None)
      else map_option ((#) (lo, lo)) (class_ranges (d # hi # rest)))"
| "class_ranges (c # rest) = map_option ((#) (c, c)) (class_ranges rest)"
| "class_ranges [] = Some []"

definition class_of :: "jsstring \<Rightarrow> rx_atom option" where
  "class_of body =
     (case body of
        [] \<Rightarrow> Some (CharClass False [])
      | c # rest \<Rightarrow>
          if c = cp CHR ''^'' then map_option (CharClass True) (class_ranges rest)
          else map_option (CharClass False) (class_ranges body))"

function lex :: "jsstring \<Rightarrow> token list option" where
  "lex [] = Some []"
| "lex (c # cs) =
     (if c = cp CHR ''^'' then map_option ((#) TBol) (lex cs)
      else if c = cp CHR ''$'' then map_option ((#) TEol) (lex cs)
      else if c = cp CHR ''*'' then map_option ((#) TStar) (lex cs)
      else if c = cp CHR ''+'' then map_option ((#) TPlus) (lex cs)
      else if c = cp CHR ''?'' then map_option ((#) TOpt) (lex cs)
      else if c = cp CHR ''.'' then map_option ((#) (TAtom Dot)) (lex cs)
      else if c = cp CHR ''['' then
        (let body = takeWhile (\<lambda>x. x \<noteq> cp CHR '']'') cs in
         if length body = length cs \<or> 0x5C \<in> set body then None
         else (case class_of body of
                 None \<Rightarrow> None
               | Some a \<Rightarrow> map_option ((#) (TAtom a)) (lex (drop (Suc (length body)) cs))))
      else if c = cp CHR ''('' then
        (case cs of
           q # e # x # r # rest \<Rightarrow>
             if q = cp CHR ''?'' \<and> e = cp CHR ''!'' \<and> r = cp CHR '')'' \<and> \<not> SyntaxCharacter x
             then map_option ((#) (TNotBefore (Chr x))) (lex rest) else None
         | other \<Rightarrow> None)
      else if SyntaxCharacter c then None
      else map_option ((#) (TAtom (Chr c))) (lex cs))"
  by pat_completeness auto
termination
  by (relation "measure length") auto

declare lex.simps [simp del]

fun build :: "token list \<Rightarrow> rx_term list option" where
  "build [] = Some []"
| "build (TBol # ts) = map_option ((#) Bol) (build ts)"
| "build (TEol # ts) = map_option ((#) Eol) (build ts)"
| "build (TNotBefore a # ts) = map_option ((#) (NotBefore a)) (build ts)"
| "build (TAtom a # TStar # ts) = map_option ((#) (Star a)) (build ts)"
| "build (TAtom a # TPlus # ts) = map_option ((#) (Plus a)) (build ts)"
| "build (TAtom a # TOpt # ts) = map_option ((#) (Opt a)) (build ts)"
| "build (TAtom a # ts) = map_option ((#) (One a)) (build ts)"
| "build (t # ts) = None"

definition parse_pattern :: "jsstring \<Rightarrow> rx_term list option" where
  "parse_pattern pattern = Option.bind (lex pattern) build"

text \<open>
  \<open>new RegExp(pattern, 'u')\<close>; \<open>None\<close> is its \<open>SyntaxError\<close>. For a pattern of the fragment
  the expression is the one written out above. For every other pattern it is what \<open>host\<close>
  gives, on which nothing is assumed.
\<close>

definition RegExp_u :: "(jsstring \<Rightarrow> RegExp option) \<Rightarrow> jsstring \<Rightarrow> RegExp option" where
  "RegExp_u host pattern =
     (case parse_pattern pattern of
        Some ts \<Rightarrow> Some (RegExp_of ts)
      | None \<Rightarrow> host pattern)"

subsection \<open>The closure built by create\<close>

text \<open>The second element of the option tuple: every switch may be absent.\<close>

record options =
  opt_classFields :: "bool option"
  opt_ignoreDestructuring :: "bool option"
  opt_ignoreNamedImports :: "bool option"
  opt_onlyDeclarations :: "bool option"
  opt_properties :: "bool option"

text \<open>The constants of the closure that the helpers and the visitor read.\<close>

record env =
  pattern :: jsstring
  regexp :: RegExp
  checkProperties :: bool
  checkClassFields :: bool
  onlyDeclarations :: bool
  ignoreDestructuring :: bool
  ignoreNamedImports :: bool

definition Boolean :: "bool option \<Rightarrow> bool" where
  "Boolean v = (case v of None \<Rightarrow> False | Some b \<Rightarrow> b)"

text \<open>
  \<open>create\<close> up to the visitor map. \<open>new_RegExp\<close> is the host's constructor with the flag
  \<open>u\<close>; \<open>None\<close> is its \<open>SyntaxError\<close>, which leaves \<open>create\<close>.
\<close>

definition create ::
  "(jsstring \<Rightarrow> RegExp option) \<Rightarrow> jsstring option \<Rightarrow> options option \<Rightarrow> error + env" where
  "create new_RegExp inputPattern opts =
     (let pat = (case inputPattern of None \<Rightarrow> js ''^.+$'' | Some p \<Rightarrow> p) in
      case new_RegExp pat of
        None \<Rightarrow> Inl SyntaxError
      | Some re \<Rightarrow>
          Inr \<lparr>pattern = pat, regexp = re,
               checkProperties = Boolean (Option.bind opts opt_properties),
               checkClassFields = Boolean (Option.bind opts opt_classFields),
               onlyDeclarations = Boolean (Option.bind opts opt_onlyDeclarations),
               ignoreDestructuring = Boolean (Option.bind opts opt_ignoreDestructuring),
               ignoreNamedImports = Boolean (Option.bind opts opt_ignoreNamedImports)\<rparr>)"

definition ALLOWED_PARENT_TYPES :: "node_type set" where
  "ALLOWED_PARENT_TYPES = {CallExpression, NewExpression}"

definition DECLARATION_TYPES :: "node_type set" where
  "DECLARATION_TYPES = {FunctionDeclaration, VariableDeclarator}"

definition IMPORT_TYPES :: "node_type set" where
  "IMPORT_TYPES = {ImportSpecifier, ImportNamespaceSpecifier, ImportDefaultSpecifier}"

definition isInvalid :: "env \<Rightarrow> jsstring \<Rightarrow> bool" where
  "isInvalid env name = (\<not> test (regexp env) name)"

definition shouldReport :: "env \<Rightarrow> node \<Rightarrow> jsstring \<Rightarrow> bool" where
  "shouldReport env effectiveParent name =
     ((\<not> onlyDeclarations env \<or> type_of effectiveParent \<in> DECLARATION_TYPES) \<and>
      type_of effectiveParent \<notin> ALLOWED_PARENT_TYPES \<and>
      isInvalid env name)"

definition report :: "env \<Rightarrow> node \<Rightarrow> state \<Rightarrow> state" where
  "report env node st =
     (if range_toString (range_of node) \<notin> reportedNodes st then
        st\<lparr>reports := reports st @
              [\<lparr>data_name = name_of node, data_pattern = pattern env,
                messageId = (if type_of node = PrivateIdentifier then notMatchPrivate else notMatch),
                reported = node\<rparr>],
           reportedNodes := insert (range_toString (range_of node)) (reportedNodes st)\<rparr>
      else st)"

text \<open>The two message templates of \<open>meta.messages\<close>, filled with \<open>data\<close>.\<close>

definition message :: "MessageIds \<Rightarrow> jsstring \<Rightarrow> jsstring \<Rightarrow> jsstring" where
  "message m name pat =
     js ''Identifier '' @ [0x27] @ (if m = notMatchPrivate then js ''#'' else []) @ name @ [0x27] @
     js '' does not match the pattern '' @ [0x27] @ pat @ [0x27] @ js ''.''"

text \<open>
  \<open>isInsideObjectPattern\<close>: the loop over the parent links of a node, here over the list
  of its ancestors, the parent first.
\<close>

fun isInsideObjectPattern :: "node list \<Rightarrow> bool" where
  "isInsideObjectPattern [] = False"
| "isInsideObjectPattern (parent # up) =
     (if type_of parent = ObjectPattern then True else isInsideObjectPattern up)"

subsection \<open>The visitor entry Identifier\<close>

text \<open>
  Lines 292 to 323, the member-access context. The two tests on \<open>effectiveParent\<close> of
  lines 306 to 310 and 317 to 319:
\<close>

fun assignsToPropertyNamed :: "node \<Rightarrow> jsstring \<Rightarrow> bool" where
  "assignsToPropertyNamed (AssignmentExpressionNode r (MemberExpressionNode lr lobj lprop) rt) name =
     (type_of lprop = Identifier \<and> name_of lprop = Some name)"
| "assignsToPropertyNamed effectiveParent name = False"

fun assignsNoMember :: "node \<Rightarrow> bool" where
  "assignsNoMember (AssignmentExpressionNode r l rt) = (type_of rt \<noteq> MemberExpression)"
| "assignsNoMember effectiveParent = False"

fun memberAccess :: "env \<Rightarrow> node \<Rightarrow> jsstring \<Rightarrow> node \<Rightarrow> node \<Rightarrow> state \<Rightarrow> state" where
  "memberAccess env node name (MemberExpressionNode pr obj prop) effectiveParent st =
     (if \<not> checkProperties env then st
      else if type_of obj = Identifier \<and> name_of obj = Some name then
        (if isInvalid env name then report env node st else st)
      else if assignsToPropertyNamed effectiveParent name then
        (if isInvalid env name then report env node st else st)
      else if assignsNoMember effectiveParent \<and> isInvalid env name then report env node st
      else st)"
| "memberAccess env node name parent effectiveParent st = st"

text \<open>
  Lines 335 to 369, the body of \<open>if (parent.parent?.type === ObjectPattern)\<close>. It ends in
  one of three ways: it falls through (\<open>Normal\<close>), it returns from the visitor (\<open>Return\<close>),
  or it throws. Only \<open>Property\<close> has the fields \<open>shorthand\<close> and \<open>key\<close>; for the other type
  that reaches these lines, \<open>AssignmentPattern\<close>, the test of line 337 fails and line 347
  throws.
\<close>

fun destructuredEntry ::
  "env \<Rightarrow> node \<Rightarrow> jsstring \<Rightarrow> nat \<Rightarrow> node \<Rightarrow> state \<Rightarrow> completion \<times> state" where
  "destructuredEntry env node name slot (PropertyNode pr key val shorthand) st =
     (let st1 = (if \<not> ignoreDestructuring env \<and> shorthand \<and> left_of val \<noteq> None \<and> isInvalid env name
                 then report env node st else st);
          assignmentKeyEqualsValue =
            (name_of val \<noteq> None \<and> name_of key \<noteq> None \<and> name_of key = name_of val)
      in if \<not> assignmentKeyEqualsValue \<and> is_key_of (PropertyNode pr key val shorthand) slot
         then (Return, st1)
         else
           (let valueIsInvalid =
                  (name_of val \<noteq> None \<and> name_of val \<noteq> Some [] \<and> isInvalid env name)
            in if valueIsInvalid \<and> \<not> (assignmentKeyEqualsValue \<and> ignoreDestructuring env)
               then (Normal, report env node st1) else (Normal, st1)))"
| "destructuredEntry env node name slot parent st = (Throw (Error ''OK''), st)"

text \<open>
  Lines 330 to 386, the object-entry context. The parent is no member access here, so
  \<open>effectiveParent\<close> is the parent.
\<close>

definition objectEntry ::
  "env \<Rightarrow> node \<Rightarrow> jsstring \<Rightarrow> nat \<Rightarrow> node \<Rightarrow> node list \<Rightarrow> state \<Rightarrow> completion \<times> state" where
  "objectEntry env node name slot parent up st =
     (case (if (case up of [] \<Rightarrow> False | g # rest \<Rightarrow> type_of g = ObjectPattern)
            then destructuredEntry env node name slot parent st else (Normal, st)) of
        (Throw e, st1) \<Rightarrow> (Throw e, st1)
      | (Return, st1) \<Rightarrow> (Normal, st1)
      | (Normal, st1) \<Rightarrow>
          if \<not> checkProperties env \<or> (ignoreDestructuring env \<and> isInsideObjectPattern (parent # up))
          then (Normal, st1)
          else if \<not> is_right_of parent slot \<and> shouldReport env parent name
          then (Normal, report env node st1)
          else (Normal, st1))"

text \<open>Lines 389 to 402, the import-binding context.\<close>

fun local_of :: "node \<Rightarrow> node option" where
  "local_of (ImportSpecifierNode r imp loc) = Some loc"
| "local_of (ImportDefaultSpecifierNode r loc) = Some loc"
| "local_of (ImportNamespaceSpecifierNode r loc) = Some loc"
| "local_of other = None"

definition importBinding :: "env \<Rightarrow> node \<Rightarrow> jsstring \<Rightarrow> node \<Rightarrow> state \<Rightarrow> state" where
  "importBinding env node name parent st =
     (if ignoreNamedImports env \<and> type_of parent = ImportSpecifier then st
      else if (case local_of parent of None \<Rightarrow> False | Some loc \<Rightarrow> name_of loc = Some name) \<and>
              isInvalid env name
      then report env node st
      else st)"

text \<open>
  Lines 275 to 412. \<open>node\<close> is the identifier, \<open>name\<close> its name, \<open>slot\<close> its index among
  the children of its parent, and the list its ancestors, the parent first.
\<close>

fun Identifier_body ::
  "env \<Rightarrow> node \<Rightarrow> jsstring \<Rightarrow> nat \<Rightarrow> node list \<Rightarrow> state \<Rightarrow> completion \<times> state" where
  "Identifier_body env node name slot [] st = (Normal, st)"
| "Identifier_body env node name slot (parent # up) st =
     (case (if type_of parent = MemberExpression
            then (case up of [] \<Rightarrow> None | g # rest \<Rightarrow> Some g) else Some parent) of
        None \<Rightarrow> (Normal, st)
      | Some effectiveParent \<Rightarrow>
          if type_of parent = MemberExpression
          then (Normal, memberAccess env node name parent effectiveParent st)
          else if type_of parent = Property \<or> type_of parent = AssignmentPattern
          then objectEntry env node name slot parent up st
          else if type_of parent \<in> IMPORT_TYPES
          then (Normal, importBinding env node name parent st)
          else if type_of parent = PropertyDefinition
          then (Normal, if checkClassFields env \<and> isInvalid env name then report env node st else st)
          else if shouldReport env effectiveParent name
          then (Normal, report env node st)
          else (Normal, st))"

text \<open>
  The entry of the visitor map. Its key is \<open>Identifier\<close>: the host calls it with the nodes
  of that type and with no other node.
\<close>

definition Identifier_handler :: "env \<Rightarrow> node \<Rightarrow> path \<Rightarrow> state \<Rightarrow> completion \<times> state" where
  "Identifier_handler env root p st =
     (case resolve root p of
        None \<Rightarrow> (Normal, st)
      | Some chain \<Rightarrow>
          (case chain of
             [] \<Rightarrow> (Normal, st)
           | node # ancestors \<Rightarrow>
               (case name_of node of
                  None \<Rightarrow> (Normal, st)
                | Some name \<Rightarrow>
                    if type_of node = Identifier
                    then Identifier_body env node name (last p) ancestors st
                    else (Normal, st))))"

subsection \<open>One run over a tree\<close>

text \<open>
  The host walks the tree depth first and calls the entry when it enters a node.
  \<open>preorder\<close> lists the positions in that order. An exception leaves the walk.
\<close>

lemma weight_list: "(\<Sum>c\<leftarrow>cs. 4 * size c + 2) \<le> 4 * size_list size (cs::node list)"
  by (induction cs) auto

lemma children_weight: "(\<Sum>c\<leftarrow>children n. 4 * size c + 2) < 4 * size n + 2"
  using weight_list [of "children n"] by (cases n) (auto split: option.splits)

lemma weight_enumerate:
  "(\<Sum>(q, c)\<leftarrow>map (\<lambda>(i, c). (f i, c)) (enumerate k cs). g c) = (\<Sum>c\<leftarrow>cs. g c)"
  by (induction cs arbitrary: k) auto

function preorder :: "(path \<times> node) list \<Rightarrow> (path \<times> node) list" where
  "preorder [] = []"
| "preorder ((p, n) # rest) =
     (p, n) # preorder (map (\<lambda>(i, c). (p @ [i], c)) (enumerate 0 (children n)) @ rest)"
  by pat_completeness auto
termination
proof (relation "measure (\<lambda>xs. \<Sum>(p, n)\<leftarrow>xs. 4 * size n + 2)")
  show "wf (measure (\<lambda>xs. \<Sum>(p, n)\<leftarrow>xs. 4 * size n + 2))" by simp
next
  fix p :: path and n :: node and rest :: "(path \<times> node) list"
  show "(map (\<lambda>(i, c). (p @ [i], c)) (enumerate 0 (children n)) @ rest, (p, n) # rest)
        \<in> measure (\<lambda>xs. \<Sum>(p, n)\<leftarrow>xs. 4 * size n + 2)"
    using children_weight [of n]
      weight_enumerate [of "\<lambda>c. 4 * size c + 2" "\<lambda>i. p @ [i]" 0 "children n"]
    by simp
qed

fun run :: "env \<Rightarrow> node \<Rightarrow> path list \<Rightarrow> state \<Rightarrow> completion \<times> state" where
  "run env root [] st = (Normal, st)"
| "run env root (p # ps) st =
     (case Identifier_handler env root p st of
        (Throw e, st1) \<Rightarrow> (Throw e, st1)
      | (c, st1) \<Rightarrow> run env root ps st1)"

text \<open>\<open>reportedNodes\<close> is created in \<open>create\<close>, once for each run: a run starts \<open>fresh\<close>.\<close>

definition validate :: "env \<Rightarrow> node \<Rightarrow> completion \<times> state" where
  "validate env root = run env root (map fst (preorder [([], root)])) fresh"

text \<open>One run of the rule, from the option tuple to the diagnostics.\<close>

definition lint ::
  "(jsstring \<Rightarrow> RegExp option) \<Rightarrow> jsstring option \<Rightarrow> options option \<Rightarrow> node \<Rightarrow>
   error + completion \<times> state" where
  "lint new_RegExp inputPattern opts root =
     (case create new_RegExp inputPattern opts of
        Inl e \<Rightarrow> Inl e
      | Inr env \<Rightarrow> Inr (validate env root))"

subsection \<open>Example programs\<close>

text \<open>Option objects: none of the switches, all of the checks, and one switch each.\<close>

definition no_options :: options where
  "no_options =
     \<lparr>opt_classFields = None, opt_ignoreDestructuring = None, opt_ignoreNamedImports = None,
      opt_onlyDeclarations = None, opt_properties = None\<rparr>"

definition all_options :: options where
  "all_options =
     \<lparr>opt_classFields = Some True, opt_ignoreDestructuring = Some False,
      opt_ignoreNamedImports = Some False, opt_onlyDeclarations = Some False,
      opt_properties = Some True\<rparr>"

definition class_fields_only :: options where
  "class_fields_only = no_options\<lparr>opt_classFields := Some True\<rparr>"

definition only_declarations :: options where
  "only_declarations = no_options\<lparr>opt_onlyDeclarations := Some True\<rparr>"

definition ignore_named_imports :: options where
  "ignore_named_imports = no_options\<lparr>opt_ignoreNamedImports := Some True\<rparr>"

definition ignore_destructuring :: options where
  "ignore_destructuring = no_options\<lparr>opt_ignoreDestructuring := Some True\<rparr>"

definition properties_only :: options where
  "properties_only = no_options\<lparr>opt_properties := Some True\<rparr>"

text \<open>
  A host for the closed examples. Their patterns are patterns of the fragment, so that its
  answer is never asked for.
\<close>

definition no_other_patterns :: "jsstring \<Rightarrow> RegExp option" where
  "no_other_patterns p = None"

text \<open>
  The closures that \<open>create\<close> builds for the pattern \<open>^[a-z]+$\<close> with given options, for
  no pattern and no options, and for the pattern \<open>[a-z]+\<close>, which has no anchors.
\<close>

definition lower_case :: "rx_term list" where
  "lower_case = [Bol, Plus (CharClass False [(cp CHR ''a'', cp CHR ''z'')]), Eol]"

definition example_env :: "options \<Rightarrow> env" where
  "example_env opts =
     \<lparr>pattern = js ''^[a-z]+$'', regexp = RegExp_of lower_case,
      checkProperties = Boolean (opt_properties opts),
      checkClassFields = Boolean (opt_classFields opts),
      onlyDeclarations = Boolean (opt_onlyDeclarations opts),
      ignoreDestructuring = Boolean (opt_ignoreDestructuring opts),
      ignoreNamedImports = Boolean (opt_ignoreNamedImports opts)\<rparr>"




text \<open>The trees the parser builds for the programs of the specification, with their ranges.\<close>

text \<open>\<^verbatim>\<open>const { bad_name } = obj;\<close>\<close>

definition prog_shorthand :: node where
  "prog_shorthand =
     OtherNode ''Program'' (0, 25)
       [OtherNode ''VariableDeclaration'' (0, 25)
          [VariableDeclaratorNode (6, 24)
             (ObjectPatternNode (6, 18)
                [PropertyNode (8, 16) (IdentifierNode (8, 16) (js ''bad_name''))
                   (IdentifierNode (8, 16) (js ''bad_name'')) True])
             (Some (IdentifierNode (21, 24) (js ''obj'')))]]"

text \<open>\<^verbatim>\<open>const { bad_name = 1 } = obj;\<close>\<close>

definition prog_shorthand_default :: node where
  "prog_shorthand_default =
     OtherNode ''Program'' (0, 29)
       [OtherNode ''VariableDeclaration'' (0, 29)
          [VariableDeclaratorNode (6, 28)
             (ObjectPatternNode (6, 22)
                [PropertyNode (8, 20) (IdentifierNode (8, 16) (js ''bad_name''))
                   (AssignmentPatternNode (8, 20) (IdentifierNode (8, 16) (js ''bad_name''))
                      (OtherNode ''Literal'' (19, 20) []))
                   True])
             (Some (IdentifierNode (25, 28) (js ''obj'')))]]"

text \<open>\<^verbatim>\<open>obj.bad_name;\<close>\<close>

definition prog_member_read :: node where
  "prog_member_read =
     OtherNode ''Program'' (0, 13)
       [OtherNode ''ExpressionStatement'' (0, 13)
          [MemberExpressionNode (0, 12) (IdentifierNode (0, 3) (js ''obj''))
             (IdentifierNode (4, 12) (js ''bad_name''))]]"

text \<open>\<^verbatim>\<open>obj.bad_name = 1;\<close>\<close>

definition prog_member_assign :: node where
  "prog_member_assign =
     OtherNode ''Program'' (0, 17)
       [OtherNode ''ExpressionStatement'' (0, 17)
          [AssignmentExpressionNode (0, 16)
             (MemberExpressionNode (0, 12) (IdentifierNode (0, 3) (js ''obj''))
                (IdentifierNode (4, 12) (js ''bad_name'')))
             (OtherNode ''Literal'' (15, 16) [])]]"

text \<open>\<^verbatim>\<open>foo(bad_name);\<close>\<close>

definition prog_call :: node where
  "prog_call =
     OtherNode ''Program'' (0, 14)
       [OtherNode ''ExpressionStatement'' (0, 14)
          [CallExpressionNode (0, 13) (IdentifierNode (0, 3) (js ''foo''))
             [IdentifierNode (4, 12) (js ''bad_name'')]]]"

text \<open>\<^verbatim>\<open>new Foo(bad_name);\<close>\<close>

definition prog_new :: node where
  "prog_new =
     OtherNode ''Program'' (0, 18)
       [OtherNode ''ExpressionStatement'' (0, 18)
          [NewExpressionNode (0, 17) (IdentifierNode (4, 7) (js ''Foo''))
             [IdentifierNode (8, 16) (js ''bad_name'')]]]"

text \<open>\<^verbatim>\<open>const bad_name = 1; use(bad_name);\<close>\<close>

definition prog_declare_use :: node where
  "prog_declare_use =
     OtherNode ''Program'' (0, 34)
       [OtherNode ''VariableDeclaration'' (0, 19)
          [VariableDeclaratorNode (6, 18) (IdentifierNode (6, 14) (js ''bad_name''))
             (Some (OtherNode ''Literal'' (17, 18) []))],
        OtherNode ''ExpressionStatement'' (20, 34)
          [CallExpressionNode (20, 33) (IdentifierNode (20, 23) (js ''use''))
             [IdentifierNode (24, 32) (js ''bad_name'')]]]"

text \<open>\<^verbatim>\<open>import { bad_name } from 'x';\<close>\<close>

definition prog_import_named :: node where
  "prog_import_named =
     OtherNode ''Program'' (0, 29)
       [OtherNode ''ImportDeclaration'' (0, 29)
          [ImportSpecifierNode (9, 17) (IdentifierNode (9, 17) (js ''bad_name''))
             (IdentifierNode (9, 17) (js ''bad_name'')),
           OtherNode ''Literal'' (25, 28) []]]"

text \<open>\<^verbatim>\<open>import { bad_name as good } from 'x';\<close>\<close>

definition prog_import_renamed :: node where
  "prog_import_renamed =
     OtherNode ''Program'' (0, 37)
       [OtherNode ''ImportDeclaration'' (0, 37)
          [ImportSpecifierNode (9, 25) (IdentifierNode (9, 17) (js ''bad_name''))
             (IdentifierNode (21, 25) (js ''good'')),
           OtherNode ''Literal'' (33, 36) []]]"

text \<open>\<^verbatim>\<open>import { bad_name as bad_name } from 'x';\<close>\<close>

definition prog_import_same_name :: node where
  "prog_import_same_name =
     OtherNode ''Program'' (0, 41)
       [OtherNode ''ImportDeclaration'' (0, 41)
          [ImportSpecifierNode (9, 29) (IdentifierNode (9, 17) (js ''bad_name''))
             (IdentifierNode (21, 29) (js ''bad_name'')),
           OtherNode ''Literal'' (37, 40) []]]"

text \<open>\<^verbatim>\<open>import bad_name from 'x';\<close>\<close>

definition prog_import_default :: node where
  "prog_import_default =
     OtherNode ''Program'' (0, 25)
       [OtherNode ''ImportDeclaration'' (0, 25)
          [ImportDefaultSpecifierNode (7, 15) (IdentifierNode (7, 15) (js ''bad_name'')),
           OtherNode ''Literal'' (21, 24) []]]"

text \<open>\<^verbatim>\<open>class a { #bad_name = 1 }\<close>\<close>

definition prog_private_field :: node where
  "prog_private_field =
     OtherNode ''Program'' (0, 25)
       [OtherNode ''ClassDeclaration'' (0, 25)
          [IdentifierNode (6, 7) (js ''a''),
           OtherNode ''ClassBody'' (8, 25)
             [PropertyDefinitionNode (10, 23) (PrivateIdentifierNode (10, 19) (js ''bad_name''))
                (Some (OtherNode ''Literal'' (22, 23) []))]]]"

text \<open>\<^verbatim>\<open>class a { bad_name = 1 }\<close>\<close>

definition prog_public_field :: node where
  "prog_public_field =
     OtherNode ''Program'' (0, 24)
       [OtherNode ''ClassDeclaration'' (0, 24)
          [IdentifierNode (6, 7) (js ''a''),
           OtherNode ''ClassBody'' (8, 24)
             [PropertyDefinitionNode (10, 22) (IdentifierNode (10, 18) (js ''bad_name''))
                (Some (OtherNode ''Literal'' (21, 22) []))]]]"

text \<open>
  A tree no parser builds: a default-value pattern that is itself an entry of an object
  pattern, so that the entry has no key.
\<close>

definition tree_keyless_entry :: node where
  "tree_keyless_entry =
     OtherNode ''Program'' (0, 29)
       [OtherNode ''VariableDeclaration'' (0, 29)
          [VariableDeclaratorNode (6, 28)
             (ObjectPatternNode (6, 22)
                [AssignmentPatternNode (8, 20) (IdentifierNode (8, 16) (js ''bad_name''))
                   (OtherNode ''Literal'' (19, 20) [])])
             (Some (IdentifierNode (25, 28) (js ''obj'')))]]"

subsection \<open>Notions for the properties\<close>

text \<open>The ancestors of the node at a position, the parent first.\<close>

definition ancestors_at :: "node \<Rightarrow> path \<Rightarrow> node list" where
  "ancestors_at root p = (case resolve root p of Some (n # up) \<Rightarrow> up | other \<Rightarrow> [])"

text \<open>
  The parent of the node at a position is an object entry (\<open>Property\<close> or
  \<open>AssignmentPattern\<close>) right below an object pattern, and it has no key.
\<close>

definition keyless_entry :: "node \<Rightarrow> path \<Rightarrow> bool" where
  "keyless_entry root p =
     (case parent_at root p of
        None \<Rightarrow> False
      | Some parent \<Rightarrow>
          (case grandparent_at root p of
             None \<Rightarrow> False
           | Some g \<Rightarrow>
               (type_of parent = Property \<or> type_of parent = AssignmentPattern) \<and>
               type_of g = ObjectPattern \<and> key_of parent = None))"

text \<open>The parent is none of the kinds with a branch of their own: the fallback branch runs.\<close>

definition fallback_parent :: "node \<Rightarrow> bool" where
  "fallback_parent parent =
     (type_of parent \<noteq> MemberExpression \<and> type_of parent \<noteq> Property \<and>
      type_of parent \<noteq> AssignmentPattern \<and> type_of parent \<notin> IMPORT_TYPES \<and>
      type_of parent \<noteq> PropertyDefinition)"


text \<open>
  The invariant of \<open>reportedNodes\<close>: it holds the stringified ranges of the diagnostics
  emitted so far, and these are pairwise different.
\<close>

definition range_key :: "diagnostic \<Rightarrow> string" where
  "range_key d = range_toString (range_of (reported d))"

definition deduplicated :: "state \<Rightarrow> bool" where
  "deduplicated st =
     (distinct (map range_key (reports st)) \<and> reportedNodes st = set (map range_key (reports st)))"

section \<open>Properties\<close>

subsection \<open>What one call of the entry does to the state\<close>

lemma report_same_range:
  "range_of n' = range_of n \<Longrightarrow> report env n' (report env n st) = report env n st"
  by (simp add: report_def)

lemma report_idem: "report env n (report env n st) = report env n st"
  by (rule report_same_range) simp

lemma memberAccess_state:
  "memberAccess env node name parent eff st = st \<or>
   memberAccess env node name parent eff st = report env node st"
  by (cases parent) simp_all

lemma destructuredEntry_state:
  "snd (destructuredEntry env node name slot parent st) = st \<or>
   snd (destructuredEntry env node name slot parent st) = report env node st"
  by (cases parent) (simp_all add: Let_def report_idem)

lemma objectEntry_state:
  "snd (objectEntry env node name slot parent up st) = st \<or>
   snd (objectEntry env node name slot parent up st) = report env node st"
proof -
  obtain c st1 where d: "destructuredEntry env node name slot parent st = (c, st1)"
    by (cases "destructuredEntry env node name slot parent st")
  with destructuredEntry_state [of env node name slot parent st]
  have "st1 = st \<or> st1 = report env node st" by simp
  then show ?thesis
    by (cases c) (auto simp: objectEntry_def d report_idem split: list.splits)
qed

lemma importBinding_state:
  "importBinding env node name parent st = st \<or>
   importBinding env node name parent st = report env node st"
  by (simp add: importBinding_def)

lemma Identifier_body_state:
  "snd (Identifier_body env node name slot ancestors st) = st \<or>
   snd (Identifier_body env node name slot ancestors st) = report env node st"
proof (cases ancestors)
  case Nil
  then show ?thesis by simp
next
  case (Cons parent up)
  then show ?thesis
    using memberAccess_state [of env node name parent _ st]
      objectEntry_state [of env node name slot parent up st]
      importBinding_state [of env node name parent st]
    by (auto split: option.splits list.splits)
qed

lemma memberAccess_valid:
  "\<not> isInvalid env name \<Longrightarrow> memberAccess env node name parent eff st = st"
  by (cases parent) simp_all

lemma destructuredEntry_valid:
  "\<not> isInvalid env name \<Longrightarrow> snd (destructuredEntry env node name slot parent st) = st"
  by (cases parent) (simp_all add: Let_def)

lemma objectEntry_valid:
  "\<not> isInvalid env name \<Longrightarrow> snd (objectEntry env node name slot parent up st) = st"
proof -
  assume v: "\<not> isInvalid env name"
  obtain c st1 where d: "destructuredEntry env node name slot parent st = (c, st1)"
    by (cases "destructuredEntry env node name slot parent st")
  with destructuredEntry_valid [OF v, of node slot parent st] have "st1 = st" by simp
  then show ?thesis using v
    by (cases c) (auto simp: objectEntry_def d shouldReport_def split: list.splits)
qed

lemma Identifier_body_valid:
  "\<not> isInvalid env name \<Longrightarrow> snd (Identifier_body env node name slot ancestors st) = st"
proof (cases ancestors)
  case Nil
  then show ?thesis by simp
next
  case (Cons parent up)
  assume v: "\<not> isInvalid env name"
  show ?thesis
    using Cons v memberAccess_valid [OF v, of node parent _ st]
      objectEntry_valid [OF v, of node slot parent up st]
    by (auto simp: importBinding_def shouldReport_def split: option.splits list.splits)
qed

lemma descend_last:
  "descend chain p = Some res \<Longrightarrow> p \<noteq> [] \<Longrightarrow>
   \<exists>parent up. res = (children parent ! last p) # parent # up \<and> last p < length (children parent)"
proof (induction p arbitrary: chain)
  case Nil
  then show ?case by simp
next
  case (Cons i rest)
  then obtain n up' where c: "chain = n # up'" by (cases chain) auto
  with Cons.prems have i: "i < length (children n)"
    and d: "descend (children n ! i # n # up') rest = Some res"
    by (auto split: if_splits)
  show ?case
  proof (cases rest)
    case Nil
    with d i show ?thesis by auto
  next
    case (Cons j rest')
    with Cons.IH [OF d] show ?thesis by auto
  qed
qed

lemma resolve_slot:
  assumes "resolve root p = Some (n # parent # up)"
  shows "p \<noteq> [] \<and> last p < length (children parent) \<and> children parent ! last p = n"
proof -
  have ne: "p \<noteq> []" using assms by (auto simp: resolve_def)
  with descend_last [of "[root]" p "n # parent # up"] assms show ?thesis
    by (auto simp: resolve_def)
qed

lemma node_at_resolve: "node_at root p = Some n \<Longrightarrow> \<exists>up. resolve root p = Some (n # up)"
  by (auto simp: node_at_def split: option.splits list.splits)

lemma parent_at_resolve:
  "node_at root p = Some n \<Longrightarrow> parent_at root p = Some parent \<Longrightarrow>
   \<exists>up. resolve root p = Some (n # parent # up)"
  by (auto simp: node_at_def parent_at_def split: option.splits list.splits)

lemma handler_at:
  "resolve root p = Some (IdentifierNode r name # ancestors) \<Longrightarrow>
   Identifier_handler env root p st =
   Identifier_body env (IdentifierNode r name) name (last p) ancestors st"
  by (simp add: Identifier_handler_def)

subsection \<open>Names that match\<close>

text \<open>
  C1. An identifier whose name the compiled pattern matches gets no diagnostic, whatever
  its parent and ancestors are: the call of the entry leaves the diagnostics and the set of
  reported ranges as they were.
\<close>

theorem matching_name_never_reported:
  assumes "node_at root p = Some (IdentifierNode r name)" and "test (regexp env) name"
  shows "snd (Identifier_handler env root p st) = st"
proof -
  from assms(1) obtain up where "resolve root p = Some (IdentifierNode r name # up)"
    using node_at_resolve by blast
  moreover have "\<not> isInvalid env name" using assms(2) by (simp add: isInvalid_def)
  ultimately show ?thesis by (simp add: handler_at Identifier_body_valid)
qed

text \<open>The identifier \<open>obj\<close> of \<^verbatim>\<open>obj.bad_name = 1;\<close> under the pattern \<open>^[a-z]+$\<close>.\<close>

theorem matching_name_never_reported_witness:
  "node_at prog_member_assign [0, 0, 0, 0] = Some (IdentifierNode (0, 3) (js ''obj'')) \<and>
   test (regexp (example_env all_options)) (js ''obj'') \<and>
   snd (Identifier_handler (example_env all_options) prog_member_assign [0, 0, 0, 0] fresh) = fresh"
proof -
  have n: "node_at prog_member_assign [0, 0, 0, 0] = Some (IdentifierNode (0, 3) (js ''obj''))"
    by code_simp
  have t: "test (regexp (example_env all_options)) (js ''obj'')"
    by code_simp
  from matching_name_never_reported [OF n t] n t show ?thesis by blast
qed

subsection \<open>Arguments of calls\<close>

text \<open>
  C6. An identifier whose parent is a call or a constructor invocation gets no diagnostic,
  whatever its name, the pattern and the options are.
\<close>

theorem call_arguments_exempt:
  assumes "node_at root p = Some (IdentifierNode r name)"
    and "parent_at root p = Some parent"
    and "type_of parent = CallExpression \<or> type_of parent = NewExpression"
  shows "Identifier_handler env root p st = (Normal, st)"
proof -
  from assms(1,2) obtain up where "resolve root p = Some (IdentifierNode r name # parent # up)"
    using parent_at_resolve by blast
  then show ?thesis using assms(3)
    by (auto simp: handler_at shouldReport_def ALLOWED_PARENT_TYPES_def IMPORT_TYPES_def)
qed

text \<open>
  The argument of \<^verbatim>\<open>foo(bad_name);\<close> under the pattern \<open>^[a-z]+$\<close> with every check
  switched on, and the whole run over that program and over \<^verbatim>\<open>new Foo(bad_name);\<close>.
\<close>

theorem call_arguments_exempt_witness:
  "node_at prog_call [0, 0, 1] = Some (IdentifierNode (4, 12) (js ''bad_name'')) \<and>
   map_option type_of (parent_at prog_call [0, 0, 1]) = Some CallExpression \<and>
   isInvalid (example_env all_options) (js ''bad_name'') \<and>
   Identifier_handler (example_env all_options) prog_call [0, 0, 1] fresh = (Normal, fresh) \<and>
   lint (RegExp_u no_other_patterns) (Some (js ''^[a-z]+$'')) (Some all_options) prog_call = Inr (Normal, fresh) \<and>
   lint (RegExp_u no_other_patterns) (Some (js ''^[a-z]+$'')) (Some all_options) prog_new = Inr (Normal, fresh)"
proof -
  have n: "node_at prog_call [0, 0, 1] = Some (IdentifierNode (4, 12) (js ''bad_name''))"
    by code_simp
  have q: "parent_at prog_call [0, 0, 1] =
      Some (CallExpressionNode (0, 13) (IdentifierNode (0, 3) (js ''foo''))
              [IdentifierNode (4, 12) (js ''bad_name'')])"
    by code_simp
  have i: "isInvalid (example_env all_options) (js ''bad_name'')"
    by code_simp
  have l: "lint (RegExp_u no_other_patterns) (Some (js ''^[a-z]+$'')) (Some all_options) prog_call = Inr (Normal, fresh)"
    by code_simp
  have m: "lint (RegExp_u no_other_patterns) (Some (js ''^[a-z]+$'')) (Some all_options) prog_new = Inr (Normal, fresh)"
    by code_simp
  have "Identifier_handler (example_env all_options) prog_call [0, 0, 1] fresh = (Normal, fresh)"
    by (rule call_arguments_exempt [OF n q]) simp
  with n q i l m show ?thesis by simp
qed

subsection \<open>One diagnostic for each range\<close>

lemma handler_state:
  "snd (Identifier_handler env root p st) = st \<or>
   (\<exists>r name. node_at root p = Some (IdentifierNode r name) \<and>
      snd (Identifier_handler env root p st) = report env (IdentifierNode r name) st)"
proof (cases "resolve root p")
  case None
  then show ?thesis by (simp add: Identifier_handler_def)
next
  case (Some chain)
  show ?thesis
  proof (cases chain)
    case Nil
    with Some show ?thesis by (simp add: Identifier_handler_def)
  next
    case (Cons node ancestors)
    show ?thesis
    proof (cases node)
      case (IdentifierNode r name)
      with Some Cons have "node_at root p = Some (IdentifierNode r name)"
        by (simp add: node_at_def)
      moreover from Some Cons IdentifierNode
      have "Identifier_handler env root p st =
              Identifier_body env (IdentifierNode r name) name (last p) ancestors st"
        by (simp add: handler_at)
      ultimately show ?thesis
        using Identifier_body_state [of env "IdentifierNode r name" name "last p" ancestors st]
        by auto
    qed (use Some Cons in \<open>simp_all add: Identifier_handler_def\<close>)
  qed
qed

lemma run_invariant:
  assumes "P st"
    and step: "\<And>r name s. P s \<Longrightarrow> P (report env (IdentifierNode r name) s)"
  shows "P (snd (run env root ps st))"
  using assms(1)
proof (induction ps arbitrary: st)
  case Nil
  then show ?case by simp
next
  case (Cons p ps)
  obtain c st1 where h: "Identifier_handler env root p st = (c, st1)"
    by (cases "Identifier_handler env root p st")
  with handler_state [of env root p st] Cons.prems step have "P st1" by auto
  then show ?case using Cons.IH [of st1] h by (cases c) simp_all
qed

lemma report_deduplicated: "deduplicated st \<Longrightarrow> deduplicated (report env n st)"
  by (auto simp: deduplicated_def report_def range_key_def)

lemma distinct_keys_ranges:
  "distinct (map range_key ds) \<Longrightarrow> distinct (map (\<lambda>d. range_of (reported d)) ds)"
  by (induction ds) (auto simp: range_key_def)

lemma report_changes:
  "report env n st \<noteq> st \<Longrightarrow>
   reports (report env n st) =
     reports st @ [\<lparr>data_name = name_of n, data_pattern = pattern env,
       messageId = (if type_of n = PrivateIdentifier then notMatchPrivate else notMatch),
       reported = n\<rparr>]"
  by (auto simp: report_def split: if_splits)

text \<open>
  C5. In one run over a tree no two diagnostics have the same range. In particular, when
  two identifier nodes have the same range (the key and the value of a shorthand entry) and
  the call of the entry for the first one emits a diagnostic, it emits exactly one, and the
  call for the second one emits nothing.
\<close>

theorem one_diagnostic_per_range:
  "distinct (map (\<lambda>d. range_of (reported d)) (reports (snd (validate env root)))) \<and>
   (node_at root p = Some (IdentifierNode r n) \<and> node_at root q = Some (IdentifierNode r m) \<and>
    snd (Identifier_handler env root p st) \<noteq> st \<longrightarrow>
      snd (Identifier_handler env root q (snd (Identifier_handler env root p st))) =
        snd (Identifier_handler env root p st) \<and>
      reports (snd (Identifier_handler env root p st)) =
        reports st @ [\<lparr>data_name = Some n, data_pattern = pattern env, messageId = notMatch,
                       reported = IdentifierNode r n\<rparr>])"
proof (intro conjI impI)
  have "deduplicated fresh" by (simp add: deduplicated_def fresh_def)
  then have "deduplicated (snd (validate env root))"
    unfolding validate_def by (rule run_invariant) (rule report_deduplicated)
  then show "distinct (map (\<lambda>d. range_of (reported d)) (reports (snd (validate env root))))"
    by (simp add: deduplicated_def distinct_keys_ranges)
next
  assume a: "node_at root p = Some (IdentifierNode r n) \<and> node_at root q = Some (IdentifierNode r m) \<and>
    snd (Identifier_handler env root p st) \<noteq> st"
  let ?st1 = "snd (Identifier_handler env root p st)"
  from a handler_state [of env root p st]
  have s1: "?st1 = report env (IdentifierNode r n) st" by auto
  from a handler_state [of env root q ?st1]
  have "snd (Identifier_handler env root q ?st1) = ?st1 \<or>
        snd (Identifier_handler env root q ?st1) = report env (IdentifierNode r m) ?st1" by auto
  moreover have "report env (IdentifierNode r m) ?st1 = ?st1"
    unfolding s1 by (rule report_same_range) simp
  ultimately show "snd (Identifier_handler env root q ?st1) = ?st1" by auto
  from a s1 have "report env (IdentifierNode r n) st \<noteq> st" by simp
  from report_changes [OF this] s1
  show "reports ?st1 =
        reports st @ [\<lparr>data_name = Some n, data_pattern = pattern env, messageId = notMatch,
                       reported = IdentifierNode r n\<rparr>]" by simp
qed

text \<open>
  \<^verbatim>\<open>const { bad_name } = obj;\<close> under the pattern \<open>^[a-z]+$\<close>: the key and the value of
  the entry are two nodes of range \<open>(8, 16)\<close>, each of them is reported when it comes
  first, and the run emits one diagnostic.
\<close>

theorem one_diagnostic_per_range_witness:
  "node_at prog_shorthand [0, 0, 0, 0, 0] = Some (IdentifierNode (8, 16) (js ''bad_name'')) \<and>
   node_at prog_shorthand [0, 0, 0, 0, 1] = Some (IdentifierNode (8, 16) (js ''bad_name'')) \<and>
   snd (Identifier_handler (example_env no_options) prog_shorthand [0, 0, 0, 0, 0] fresh) \<noteq> fresh \<and>
   snd (Identifier_handler (example_env no_options) prog_shorthand [0, 0, 0, 0, 1]
          (snd (Identifier_handler (example_env no_options) prog_shorthand [0, 0, 0, 0, 0] fresh))) =
     snd (Identifier_handler (example_env no_options) prog_shorthand [0, 0, 0, 0, 0] fresh) \<and>
   reports (snd (Identifier_handler (example_env no_options) prog_shorthand [0, 0, 0, 0, 1] fresh)) =
     [\<lparr>data_name = Some (js ''bad_name''), data_pattern = js ''^[a-z]+$'', messageId = notMatch,
       reported = IdentifierNode (8, 16) (js ''bad_name'')\<rparr>] \<and>
   lint (RegExp_u no_other_patterns) (Some (js ''^[a-z]+$'')) None prog_shorthand =
     Inr (Normal,
       \<lparr>reports = [\<lparr>data_name = Some (js ''bad_name''), data_pattern = js ''^[a-z]+$'',
                    messageId = notMatch, reported = IdentifierNode (8, 16) (js ''bad_name'')\<rparr>],
        reportedNodes = {''8,16''}\<rparr>)"
proof -
  have a: "node_at prog_shorthand [0, 0, 0, 0, 0] = Some (IdentifierNode (8, 16) (js ''bad_name''))"
    by code_simp
  have b: "node_at prog_shorthand [0, 0, 0, 0, 1] = Some (IdentifierNode (8, 16) (js ''bad_name''))"
    by code_simp
  have c: "snd (Identifier_handler (example_env no_options) prog_shorthand [0, 0, 0, 0, 0] fresh) \<noteq> fresh"
    by code_simp
  have d: "reports (snd (Identifier_handler (example_env no_options) prog_shorthand [0, 0, 0, 0, 1] fresh)) =
     [\<lparr>data_name = Some (js ''bad_name''), data_pattern = js ''^[a-z]+$'', messageId = notMatch,
       reported = IdentifierNode (8, 16) (js ''bad_name'')\<rparr>]"
    by code_simp
  have e: "lint (RegExp_u no_other_patterns) (Some (js ''^[a-z]+$'')) None prog_shorthand =
     Inr (Normal,
       \<lparr>reports = [\<lparr>data_name = Some (js ''bad_name''), data_pattern = js ''^[a-z]+$'',
                    messageId = notMatch, reported = IdentifierNode (8, 16) (js ''bad_name'')\<rparr>],
        reportedNodes = {''8,16''}\<rparr>)"
    by code_simp
  from one_diagnostic_per_range [of "example_env no_options" prog_shorthand "[0, 0, 0, 0, 0]" "(8, 16)"
      "js ''bad_name''" "[0, 0, 0, 0, 1]" "js ''bad_name''" fresh] a b c
  have "snd (Identifier_handler (example_env no_options) prog_shorthand [0, 0, 0, 0, 1]
          (snd (Identifier_handler (example_env no_options) prog_shorthand [0, 0, 0, 0, 0] fresh))) =
     snd (Identifier_handler (example_env no_options) prog_shorthand [0, 0, 0, 0, 0] fresh)"
    by blast
  with a b c d e show ?thesis by blast
qed

subsection \<open>Private class fields\<close>

lemma report_Identifier_notMatch:
  "\<forall>d\<in>set (reports s). messageId d = notMatch \<and> type_of (reported d) = Identifier \<Longrightarrow>
   \<forall>d\<in>set (reports (report env (IdentifierNode r name) s)).
      messageId d = notMatch \<and> type_of (reported d) = Identifier"
  by (auto simp: report_def)

text \<open>
  C2 fails on the code. The visitor map has the one entry \<open>Identifier\<close>, and the name of a
  private field is a node of type \<open>PrivateIdentifier\<close>: no run emits a diagnostic for such
  a node or with the message \<open>notMatchPrivate\<close>, and \<^verbatim>\<open>class a { #bad_name = 1 }\<close> with
  \<open>classFields: true\<close> under the pattern \<open>^[a-z]+$\<close> gets no diagnostic, although \<open>report\<close>
  would choose \<open>notMatchPrivate\<close> for that node.
\<close>

theorem private_variant_never_emitted:
  "(\<forall>d\<in>set (reports (snd (validate env root))).
      messageId d = notMatch \<and> type_of (reported d) = Identifier) \<and>
   isInvalid (example_env class_fields_only) (js ''bad_name'') \<and>
   lint (RegExp_u host) (Some (js ''^[a-z]+$'')) (Some class_fields_only) prog_private_field =
     Inr (Normal, fresh) \<and>
   map messageId (reports (report env (PrivateIdentifierNode r name) fresh)) = [notMatchPrivate]"
proof (intro conjI)
  have "\<forall>d\<in>set (reports fresh). messageId d = notMatch \<and> type_of (reported d) = Identifier"
    by (simp add: fresh_def)
  then show "\<forall>d\<in>set (reports (snd (validate env root))).
      messageId d = notMatch \<and> type_of (reported d) = Identifier"
    unfolding validate_def by (rule run_invariant) (rule report_Identifier_notMatch)
  show "isInvalid (example_env class_fields_only) (js ''bad_name'')"
    by code_simp
  show "lint (RegExp_u host) (Some (js ''^[a-z]+$'')) (Some class_fields_only) prog_private_field =
     Inr (Normal, fresh)"
    by code_simp
  show "map messageId (reports (report env (PrivateIdentifierNode r name) fresh)) = [notMatchPrivate]"
    by (simp add: report_def fresh_def)
qed

text \<open>
  The run over \<^verbatim>\<open>class a { bad_name = 1 }\<close> with the same options: one diagnostic, with
  the message \<open>notMatch\<close>.
\<close>

theorem private_variant_never_emitted_witness:
  "lint (RegExp_u no_other_patterns) (Some (js ''^[a-z]+$'')) (Some class_fields_only) prog_public_field =
     Inr (Normal,
       \<lparr>reports = [\<lparr>data_name = Some (js ''bad_name''), data_pattern = js ''^[a-z]+$'',
                    messageId = notMatch, reported = IdentifierNode (10, 18) (js ''bad_name'')\<rparr>],
        reportedNodes = {''10,18''}\<rparr>) \<and>
   list_all (\<lambda>d. messageId d = notMatch)
     (reports (snd (validate (example_env class_fields_only) prog_public_field))) \<and>
   message notMatch (js ''bad_name'') (js ''^[a-z]+$'') \<noteq> message notMatchPrivate (js ''bad_name'') (js ''^[a-z]+$'')"
proof -
  have a: "lint (RegExp_u no_other_patterns) (Some (js ''^[a-z]+$'')) (Some class_fields_only) prog_public_field =
     Inr (Normal,
       \<lparr>reports = [\<lparr>data_name = Some (js ''bad_name''), data_pattern = js ''^[a-z]+$'',
                    messageId = notMatch, reported = IdentifierNode (10, 18) (js ''bad_name'')\<rparr>],
        reportedNodes = {''10,18''}\<rparr>)"
    by code_simp
  have b: "message notMatch (js ''bad_name'') (js ''^[a-z]+$'') \<noteq> message notMatchPrivate (js ''bad_name'') (js ''^[a-z]+$'')"
    by code_simp
  from private_variant_never_emitted [of "example_env class_fields_only" prog_public_field]
  have "list_all (\<lambda>d. messageId d = notMatch)
     (reports (snd (validate (example_env class_fields_only) prog_public_field)))"
    by (simp add: list_all_iff)
  with a b show ?thesis by blast
qed

subsection \<open>The exception\<close>

lemma chain3:
  "node_at root p = Some n \<Longrightarrow> parent_at root p = Some parent \<Longrightarrow>
   grandparent_at root p = Some g \<Longrightarrow> \<exists>up. resolve root p = Some (n # parent # g # up)"
  by (auto simp: node_at_def parent_at_def grandparent_at_def split: option.splits list.splits)

lemma chain2_only:
  "node_at root p = Some n \<Longrightarrow> parent_at root p = Some parent \<Longrightarrow>
   grandparent_at root p = None \<Longrightarrow> resolve root p = Some [n, parent]"
  by (auto simp: node_at_def parent_at_def grandparent_at_def split: option.splits list.splits)

lemma destructuredEntry_keyless:
  "type_of parent \<noteq> Property \<Longrightarrow>
   destructuredEntry env node name slot parent st = (Throw (Error ''OK''), st)"
  by (cases parent) simp_all

lemma destructuredEntry_Property:
  "type_of parent = Property \<Longrightarrow>
   fst (destructuredEntry env node name slot parent st) = Normal \<or>
   fst (destructuredEntry env node name slot parent st) = Return"
  by (cases parent) (simp_all add: Let_def)

lemma objectEntry_Normal:
  assumes "fst (d :: completion \<times> state) = Normal \<or> fst d = Return"
  shows "fst (case d of
        (Throw e, st1) \<Rightarrow> (Throw e, st1)
      | (Return, st1) \<Rightarrow> (Normal, st1)
      | (Normal, st1) \<Rightarrow> if c1 then (Normal, st1) else if c2 then (Normal, f st1) else (Normal, st1)) = Normal"
  using assms by (cases d; cases "fst d") auto

lemma key_of_entry:
  "type_of parent = Property \<or> type_of parent = AssignmentPattern \<Longrightarrow>
   key_of parent = None \<longleftrightarrow> type_of parent \<noteq> Property"
  by (cases parent) simp_all

lemma Identifier_body_completion:
  "Identifier_body env node name slot ancestors st = (Throw (Error ''OK''), st) \<and>
     (\<exists>parent g up. ancestors = parent # g # up \<and>
        (type_of parent = Property \<or> type_of parent = AssignmentPattern) \<and>
        type_of g = ObjectPattern \<and> key_of parent = None) \<or>
   fst (Identifier_body env node name slot ancestors st) = Normal \<and>
     \<not> (\<exists>parent g up. ancestors = parent # g # up \<and>
        (type_of parent = Property \<or> type_of parent = AssignmentPattern) \<and>
        type_of g = ObjectPattern \<and> key_of parent = None)"
proof (cases ancestors)
  case Nil
  then show ?thesis by simp
next
  case (Cons parent up)
  show ?thesis
  proof (cases "type_of parent = Property \<or> type_of parent = AssignmentPattern")
    case False
    with Cons show ?thesis by (auto split: option.splits list.splits)
  next
    case entry: True
    then have body: "Identifier_body env node name slot ancestors st =
        objectEntry env node name slot parent up st"
      using Cons by auto
    show ?thesis
    proof (cases "case up of [] \<Rightarrow> False | g # rest \<Rightarrow> type_of g = ObjectPattern")
      case False
      then have "fst (objectEntry env node name slot parent up st) = Normal"
        by (simp add: objectEntry_def)
      moreover from False have "\<not> (\<exists>g up'. up = g # up' \<and> type_of g = ObjectPattern)"
        by (auto split: list.splits)
      ultimately show ?thesis using body Cons by auto
    next
      case pattern: True
      then obtain g up' where up: "up = g # up'" and g: "type_of g = ObjectPattern"
        by (auto split: list.splits)
      show ?thesis
      proof (cases "type_of parent = Property")
        case True
        have "fst (objectEntry env node name slot parent up st) = Normal"
          unfolding objectEntry_def using pattern
          by (simp only: if_True) (rule objectEntry_Normal, rule destructuredEntry_Property [OF True])
        moreover from True entry have "key_of parent \<noteq> None" using key_of_entry by blast
        ultimately show ?thesis using body Cons by auto
      next
        case False
        then have "objectEntry env node name slot parent up st = (Throw (Error ''OK''), st)"
          using pattern by (simp add: objectEntry_def destructuredEntry_keyless)
        moreover from False entry have "key_of parent = None" using key_of_entry by blast
        ultimately show ?thesis using body Cons up g entry by auto
      qed
    qed
  qed
qed

text \<open>
  C9. For an identifier whose parent is an object entry right below an object pattern and
  has no key, the call of the entry throws at once and emits no diagnostic; in every other
  case the call completes normally.
\<close>

theorem missing_key_throws:
  assumes "node_at root p = Some (IdentifierNode r name)"
  shows "(keyless_entry root p \<longrightarrow>
            Identifier_handler env root p st = (Throw (Error ''OK''), st)) \<and>
         (\<not> keyless_entry root p \<longrightarrow> fst (Identifier_handler env root p st) = Normal)"
proof -
  from assms obtain ancestors where c: "resolve root p = Some (IdentifierNode r name # ancestors)"
    using node_at_resolve by blast
  have k: "keyless_entry root p \<longleftrightarrow>
      (\<exists>parent g up. ancestors = parent # g # up \<and>
        (type_of parent = Property \<or> type_of parent = AssignmentPattern) \<and>
        type_of g = ObjectPattern \<and> key_of parent = None)"
    using c by (auto simp: keyless_entry_def parent_at_def grandparent_at_def split: list.splits)
  show ?thesis
    using Identifier_body_completion [of env "IdentifierNode r name" name "last p" ancestors st]
    unfolding handler_at [OF c] k by auto
qed

text \<open>
  An entry without a key, where the call and the run throw, and the identifier before the
  default of \<^verbatim>\<open>const { bad_name = 1 } = obj;\<close>, where the call completes.
\<close>

theorem missing_key_throws_witness:
  "node_at tree_keyless_entry [0, 0, 0, 0, 0] = Some (IdentifierNode (8, 16) (js ''bad_name'')) \<and>
   keyless_entry tree_keyless_entry [0, 0, 0, 0, 0] \<and>
   Identifier_handler (example_env all_options) tree_keyless_entry [0, 0, 0, 0, 0] fresh =
     (Throw (Error ''OK''), fresh) \<and>
   lint (RegExp_u no_other_patterns) (Some (js ''^[a-z]+$'')) (Some all_options) tree_keyless_entry =
     Inr (Throw (Error ''OK''), fresh) \<and>
   node_at prog_shorthand_default [0, 0, 0, 0, 1, 0] = Some (IdentifierNode (8, 16) (js ''bad_name'')) \<and>
   \<not> keyless_entry prog_shorthand_default [0, 0, 0, 0, 1, 0] \<and>
   fst (Identifier_handler (example_env all_options) prog_shorthand_default [0, 0, 0, 0, 1, 0] fresh) =
     Normal"
proof -
  have a: "node_at tree_keyless_entry [0, 0, 0, 0, 0] = Some (IdentifierNode (8, 16) (js ''bad_name''))"
    by code_simp
  have b: "keyless_entry tree_keyless_entry [0, 0, 0, 0, 0]"
    by code_simp
  have c: "lint (RegExp_u no_other_patterns) (Some (js ''^[a-z]+$'')) (Some all_options) tree_keyless_entry =
     Inr (Throw (Error ''OK''), fresh)"
    by code_simp
  have d: "node_at prog_shorthand_default [0, 0, 0, 0, 1, 0] = Some (IdentifierNode (8, 16) (js ''bad_name''))"
    by code_simp
  have e: "\<not> keyless_entry prog_shorthand_default [0, 0, 0, 0, 1, 0]"
    by code_simp
  from missing_key_throws [OF a] b
  have f: "Identifier_handler (example_env all_options) tree_keyless_entry [0, 0, 0, 0, 0] fresh =
     (Throw (Error ''OK''), fresh)" by blast
  from missing_key_throws [OF d] e
  have g: "fst (Identifier_handler (example_env all_options) prog_shorthand_default [0, 0, 0, 0, 1, 0] fresh) =
     Normal" by blast
  from a b c d e f g show ?thesis by blast
qed

subsection \<open>Declarations only\<close>

lemma report_fresh_range:
  "range_toString (range_of n) \<notin> reportedNodes st \<Longrightarrow>
   reports (report env n st) =
     reports st @ [\<lparr>data_name = name_of n, data_pattern = pattern env,
       messageId = (if type_of n = PrivateIdentifier then notMatchPrivate else notMatch),
       reported = n\<rparr>]"
  by (simp add: report_def)

text \<open>
  C7. With \<open>onlyDeclarations\<close>, \<open>shouldReport\<close> holds only for an effective parent that is a
  function declaration or a variable declarator, and an identifier in the fallback branch
  is reported exactly when its parent is one of the two and its name fails the pattern.
  The run over \<^verbatim>\<open>const bad_name = 1; use(bad_name);\<close> under the pattern \<open>^[a-z]+$\<close> emits
  one diagnostic, for the declared name at \<open>(6, 14)\<close>.
\<close>

theorem only_declarations_flagged:
  "(onlyDeclarations env \<and> shouldReport env effectiveParent name \<longrightarrow>
      type_of effectiveParent = FunctionDeclaration \<or> type_of effectiveParent = VariableDeclarator) \<and>
   (onlyDeclarations env \<and> node_at root p = Some (IdentifierNode r name) \<and>
    parent_at root p = Some parent \<and> fallback_parent parent \<longrightarrow>
      Identifier_handler env root p st =
        (Normal,
         if (type_of parent = FunctionDeclaration \<or> type_of parent = VariableDeclarator) \<and>
            isInvalid env name
         then report env (IdentifierNode r name) st else st)) \<and>
   lint (RegExp_u host) (Some (js ''^[a-z]+$'')) (Some only_declarations) prog_declare_use =
     Inr (Normal,
       \<lparr>reports = [\<lparr>data_name = Some (js ''bad_name''), data_pattern = js ''^[a-z]+$'',
                    messageId = notMatch, reported = IdentifierNode (6, 14) (js ''bad_name'')\<rparr>],
        reportedNodes = {''6,14''}\<rparr>)"
proof (intro conjI impI)
  show "lint (RegExp_u host) (Some (js ''^[a-z]+$'')) (Some only_declarations) prog_declare_use =
     Inr (Normal,
       \<lparr>reports = [\<lparr>data_name = Some (js ''bad_name''), data_pattern = js ''^[a-z]+$'',
                    messageId = notMatch, reported = IdentifierNode (6, 14) (js ''bad_name'')\<rparr>],
        reportedNodes = {''6,14''}\<rparr>)"
    by code_simp
next
  assume "onlyDeclarations env \<and> shouldReport env effectiveParent name"
  then show "type_of effectiveParent = FunctionDeclaration \<or> type_of effectiveParent = VariableDeclarator"
    by (auto simp: shouldReport_def DECLARATION_TYPES_def)
next
  assume a: "onlyDeclarations env \<and> node_at root p = Some (IdentifierNode r name) \<and>
    parent_at root p = Some parent \<and> fallback_parent parent"
  then obtain up where "resolve root p = Some (IdentifierNode r name # parent # up)"
    using parent_at_resolve by blast
  then show "Identifier_handler env root p st =
        (Normal,
         if (type_of parent = FunctionDeclaration \<or> type_of parent = VariableDeclarator) \<and>
            isInvalid env name
         then report env (IdentifierNode r name) st else st)"
    using a
    by (auto simp: handler_at fallback_parent_def shouldReport_def DECLARATION_TYPES_def
        ALLOWED_PARENT_TYPES_def)
qed

text \<open>
  The two occurrences of \<open>bad_name\<close> in that program: the declared name is reported by its
  call of the entry, the argument of \<open>use\<close> is not.
\<close>

theorem only_declarations_flagged_witness:
  "node_at prog_declare_use [0, 0, 0] = Some (IdentifierNode (6, 14) (js ''bad_name'')) \<and>
   map_option type_of (parent_at prog_declare_use [0, 0, 0]) = Some VariableDeclarator \<and>
   reports (snd (Identifier_handler (example_env only_declarations) prog_declare_use [0, 0, 0] fresh)) =
     [\<lparr>data_name = Some (js ''bad_name''), data_pattern = js ''^[a-z]+$'',
       messageId = notMatch, reported = IdentifierNode (6, 14) (js ''bad_name'')\<rparr>] \<and>
   node_at prog_declare_use [1, 0, 1] = Some (IdentifierNode (24, 32) (js ''bad_name'')) \<and>
   map_option type_of (parent_at prog_declare_use [1, 0, 1]) = Some CallExpression \<and>
   Identifier_handler (example_env only_declarations) prog_declare_use [1, 0, 1] fresh = (Normal, fresh)"
proof -
  let ?env = "example_env only_declarations"
  have o: "onlyDeclarations ?env" by code_simp
  have i: "isInvalid ?env (js ''bad_name'')" by code_simp
  have n1: "node_at prog_declare_use [0, 0, 0] = Some (IdentifierNode (6, 14) (js ''bad_name''))"
    by code_simp
  have p1: "parent_at prog_declare_use [0, 0, 0] =
      Some (VariableDeclaratorNode (6, 18) (IdentifierNode (6, 14) (js ''bad_name''))
             (Some (OtherNode ''Literal'' (17, 18) [])))"
    by code_simp
  have f1: "fallback_parent (VariableDeclaratorNode (6, 18) (IdentifierNode (6, 14) (js ''bad_name''))
             (Some (OtherNode ''Literal'' (17, 18) [])))"
    by code_simp
  have n2: "node_at prog_declare_use [1, 0, 1] = Some (IdentifierNode (24, 32) (js ''bad_name''))"
    by code_simp
  have p2: "parent_at prog_declare_use [1, 0, 1] =
      Some (CallExpressionNode (20, 33) (IdentifierNode (20, 23) (js ''use''))
             [IdentifierNode (24, 32) (js ''bad_name'')])"
    by code_simp
  have f2: "fallback_parent (CallExpressionNode (20, 33) (IdentifierNode (20, 23) (js ''use''))
             [IdentifierNode (24, 32) (js ''bad_name'')])"
    by code_simp
  have r1: "reports (report ?env (IdentifierNode (6, 14) (js ''bad_name'')) fresh) =
     [\<lparr>data_name = Some (js ''bad_name''), data_pattern = js ''^[a-z]+$'',
       messageId = notMatch, reported = IdentifierNode (6, 14) (js ''bad_name'')\<rparr>]"
    by code_simp
  from only_declarations_flagged [where env = ?env and root = prog_declare_use and p = "[0, 0, 0]"
      and r = "(6, 14)" and name = "js ''bad_name''" and st = fresh
      and parent = "VariableDeclaratorNode (6, 18) (IdentifierNode (6, 14) (js ''bad_name''))
             (Some (OtherNode ''Literal'' (17, 18) []))"]
    o n1 p1 f1 i
  have h1: "Identifier_handler ?env prog_declare_use [0, 0, 0] fresh =
      (Normal, report ?env (IdentifierNode (6, 14) (js ''bad_name'')) fresh)"
    by simp
  from only_declarations_flagged [where env = ?env and root = prog_declare_use and p = "[1, 0, 1]"
      and r = "(24, 32)" and name = "js ''bad_name''" and st = fresh
      and parent = "CallExpressionNode (20, 33) (IdentifierNode (20, 23) (js ''use''))
             [IdentifierNode (24, 32) (js ''bad_name'')]"]
    o n2 p2 f2
  have h2: "Identifier_handler ?env prog_declare_use [1, 0, 1] fresh = (Normal, fresh)"
    by simp
  from n1 p1 n2 p2 h1 h2 r1 show ?thesis by simp
qed

subsection \<open>Import bindings\<close>

text \<open>
  C8 fails on the code in its last part. The import branch skips the identifiers of a named
  specifier under \<open>ignoreNamedImports\<close>, reports the identifier of a default specifier whose
  name fails the pattern, and reports no identifier whose name is not the local name. But it
  compares names, not nodes: the imported identifier of a named specifier that is spelled
  like the local name is reported as well, and the run over
  \<^verbatim>\<open>import { bad_name as bad_name } from 'x';\<close> under the pattern \<open>^[a-z]+$\<close> emits two
  diagnostics, the first of them for the imported name at \<open>(9, 17)\<close>.
\<close>

theorem imported_name_reported:
  "(ignoreNamedImports env \<and> node_at root p = Some (IdentifierNode r name) \<and>
    parent_at root p = Some parent \<and> type_of parent = ImportSpecifier \<longrightarrow>
      Identifier_handler env root p st = (Normal, st)) \<and>
   (node_at root p = Some (IdentifierNode r name) \<and> parent_at root p = Some parent \<and>
    type_of parent = ImportDefaultSpecifier \<and> isInvalid env name \<and>
    range_toString r \<notin> reportedNodes st \<longrightarrow>
      reports (snd (Identifier_handler env root p st)) =
        reports st @ [\<lparr>data_name = Some name, data_pattern = pattern env, messageId = notMatch,
                       reported = IdentifierNode r name\<rparr>]) \<and>
   (node_at root p = Some (IdentifierNode r name) \<and> parent_at root p = Some parent \<and>
    type_of parent \<in> IMPORT_TYPES \<and> snd (Identifier_handler env root p st) \<noteq> st \<longrightarrow>
      Option.bind (local_of parent) name_of = Some name) \<and>
   (\<not> ignoreNamedImports env \<and> node_at root p = Some (IdentifierNode r name) \<and>
    parent_at root p = Some (ImportSpecifierNode pr imported loc) \<and> last p = 0 \<and>
    name_of loc = Some name \<and> isInvalid env name \<and> range_toString r \<notin> reportedNodes st \<longrightarrow>
      imported = IdentifierNode r name \<and>
      reports (snd (Identifier_handler env root p st)) =
        reports st @ [\<lparr>data_name = Some name, data_pattern = pattern env, messageId = notMatch,
                       reported = IdentifierNode r name\<rparr>]) \<and>
   lint (RegExp_u host) (Some (js ''^[a-z]+$'')) None prog_import_same_name =
     Inr (Normal,
       \<lparr>reports =
          [\<lparr>data_name = Some (js ''bad_name''), data_pattern = js ''^[a-z]+$'',
            messageId = notMatch, reported = IdentifierNode (9, 17) (js ''bad_name'')\<rparr>,
           \<lparr>data_name = Some (js ''bad_name''), data_pattern = js ''^[a-z]+$'',
            messageId = notMatch, reported = IdentifierNode (21, 29) (js ''bad_name'')\<rparr>],
        reportedNodes = {''9,17'', ''21,29''}\<rparr>)"
proof (intro conjI impI)
  show "lint (RegExp_u host) (Some (js ''^[a-z]+$'')) None prog_import_same_name =
     Inr (Normal,
       \<lparr>reports =
          [\<lparr>data_name = Some (js ''bad_name''), data_pattern = js ''^[a-z]+$'',
            messageId = notMatch, reported = IdentifierNode (9, 17) (js ''bad_name'')\<rparr>,
           \<lparr>data_name = Some (js ''bad_name''), data_pattern = js ''^[a-z]+$'',
            messageId = notMatch, reported = IdentifierNode (21, 29) (js ''bad_name'')\<rparr>],
        reportedNodes = {''9,17'', ''21,29''}\<rparr>)"
    by code_simp
next
  assume a: "ignoreNamedImports env \<and> node_at root p = Some (IdentifierNode r name) \<and>
    parent_at root p = Some parent \<and> type_of parent = ImportSpecifier"
  then obtain up where "resolve root p = Some (IdentifierNode r name # parent # up)"
    using parent_at_resolve by blast
  then show "Identifier_handler env root p st = (Normal, st)"
    using a by (simp add: handler_at IMPORT_TYPES_def importBinding_def)
next
  assume a: "node_at root p = Some (IdentifierNode r name) \<and> parent_at root p = Some parent \<and>
    type_of parent = ImportDefaultSpecifier \<and> isInvalid env name \<and>
    range_toString r \<notin> reportedNodes st"
  then obtain up where c: "resolve root p = Some (IdentifierNode r name # parent # up)"
    using parent_at_resolve by blast
  from a obtain pr loc where parent: "parent = ImportDefaultSpecifierNode pr loc"
    by (cases parent) auto
  from resolve_slot [OF c] have "loc = IdentifierNode r name"
    by (auto simp: parent)
  then have "Identifier_handler env root p st = (Normal, report env (IdentifierNode r name) st)"
    using a c by (simp add: handler_at parent IMPORT_TYPES_def importBinding_def)
  then show "reports (snd (Identifier_handler env root p st)) =
        reports st @ [\<lparr>data_name = Some name, data_pattern = pattern env, messageId = notMatch,
                       reported = IdentifierNode r name\<rparr>]"
    using a by (simp add: report_fresh_range)
next
  assume a: "node_at root p = Some (IdentifierNode r name) \<and> parent_at root p = Some parent \<and>
    type_of parent \<in> IMPORT_TYPES \<and> snd (Identifier_handler env root p st) \<noteq> st"
  then obtain up where c: "resolve root p = Some (IdentifierNode r name # parent # up)"
    using parent_at_resolve by blast
  from a have "type_of parent \<noteq> MemberExpression \<and> type_of parent \<noteq> Property \<and>
      type_of parent \<noteq> AssignmentPattern"
    by (auto simp: IMPORT_TYPES_def)
  then have "Identifier_handler env root p st =
      (Normal, importBinding env (IdentifierNode r name) name parent st)"
    using a c by (simp add: handler_at)
  with a show "Option.bind (local_of parent) name_of = Some name"
    by (auto simp: importBinding_def split: if_splits option.splits)
next
  assume a: "\<not> ignoreNamedImports env \<and> node_at root p = Some (IdentifierNode r name) \<and>
    parent_at root p = Some (ImportSpecifierNode pr imported loc) \<and> last p = 0 \<and>
    name_of loc = Some name \<and> isInvalid env name \<and> range_toString r \<notin> reportedNodes st"
  then obtain up where
    c: "resolve root p = Some (IdentifierNode r name # ImportSpecifierNode pr imported loc # up)"
    using parent_at_resolve by blast
  from resolve_slot [OF c] a show "imported = IdentifierNode r name"
    by auto
  have "Identifier_handler env root p st = (Normal, report env (IdentifierNode r name) st)"
    using a c by (simp add: handler_at IMPORT_TYPES_def importBinding_def)
  then show "reports (snd (Identifier_handler env root p st)) =
        reports st @ [\<lparr>data_name = Some name, data_pattern = pattern env, messageId = notMatch,
                       reported = IdentifierNode r name\<rparr>]"
    using a by (simp add: report_fresh_range)
qed

text \<open>
  \<^verbatim>\<open>import { bad_name } from 'x';\<close> and \<^verbatim>\<open>import bad_name from 'x';\<close> with
  \<open>ignoreNamedImports\<close>; \<^verbatim>\<open>import { bad_name as good } from 'x';\<close> without it, where the
  imported name fails the pattern and the local name matches it; and the imported
  identifier of \<^verbatim>\<open>import { bad_name as bad_name } from 'x';\<close>.
\<close>

theorem imported_name_reported_witness:
  "lint (RegExp_u no_other_patterns) (Some (js ''^[a-z]+$'')) (Some ignore_named_imports)
     prog_import_named = Inr (Normal, fresh) \<and>
   lint (RegExp_u no_other_patterns) (Some (js ''^[a-z]+$'')) (Some ignore_named_imports)
     prog_import_default =
     Inr (Normal,
       \<lparr>reports = [\<lparr>data_name = Some (js ''bad_name''), data_pattern = js ''^[a-z]+$'',
                    messageId = notMatch, reported = IdentifierNode (7, 15) (js ''bad_name'')\<rparr>],
        reportedNodes = {''7,15''}\<rparr>) \<and>
   lint (RegExp_u no_other_patterns) (Some (js ''^[a-z]+$'')) None prog_import_renamed =
     Inr (Normal, fresh) \<and>
   Identifier_handler (example_env ignore_named_imports) prog_import_named [0, 0, 1] fresh =
     (Normal, fresh) \<and>
   reports (snd (Identifier_handler (example_env ignore_named_imports) prog_import_default
                   [0, 0, 0] fresh)) =
     [\<lparr>data_name = Some (js ''bad_name''), data_pattern = js ''^[a-z]+$'',
       messageId = notMatch, reported = IdentifierNode (7, 15) (js ''bad_name'')\<rparr>] \<and>
   node_at prog_import_same_name [0, 0, 0] = Some (IdentifierNode (9, 17) (js ''bad_name'')) \<and>
   parent_at prog_import_same_name [0, 0, 0] =
     Some (ImportSpecifierNode (9, 29) (IdentifierNode (9, 17) (js ''bad_name''))
            (IdentifierNode (21, 29) (js ''bad_name''))) \<and>
   reports (snd (Identifier_handler (example_env no_options) prog_import_same_name [0, 0, 0]
                   fresh)) =
     [\<lparr>data_name = Some (js ''bad_name''), data_pattern = js ''^[a-z]+$'',
       messageId = notMatch, reported = IdentifierNode (9, 17) (js ''bad_name'')\<rparr>]"
proof -
  let ?env = "example_env ignore_named_imports"
  let ?off = "example_env no_options"
  let ?same = "ImportSpecifierNode (9, 29) (IdentifierNode (9, 17) (js ''bad_name''))
                 (IdentifierNode (21, 29) (js ''bad_name''))"
  have l1: "lint (RegExp_u no_other_patterns) (Some (js ''^[a-z]+$'')) (Some ignore_named_imports)
     prog_import_named = Inr (Normal, fresh)"
    by code_simp
  have l2: "lint (RegExp_u no_other_patterns) (Some (js ''^[a-z]+$'')) (Some ignore_named_imports)
     prog_import_default =
     Inr (Normal,
       \<lparr>reports = [\<lparr>data_name = Some (js ''bad_name''), data_pattern = js ''^[a-z]+$'',
                    messageId = notMatch, reported = IdentifierNode (7, 15) (js ''bad_name'')\<rparr>],
        reportedNodes = {''7,15''}\<rparr>)"
    by code_simp
  have l3: "lint (RegExp_u no_other_patterns) (Some (js ''^[a-z]+$'')) None prog_import_renamed =
     Inr (Normal, fresh)"
    by code_simp
  have o: "ignoreNamedImports ?env" and o': "\<not> ignoreNamedImports ?off"
    and i: "isInvalid ?env (js ''bad_name'')" and i': "isInvalid ?off (js ''bad_name'')"
    by code_simp+
  have n1: "node_at prog_import_named [0, 0, 1] = Some (IdentifierNode (9, 17) (js ''bad_name''))"
    and p1: "parent_at prog_import_named [0, 0, 1] =
      Some (ImportSpecifierNode (9, 17) (IdentifierNode (9, 17) (js ''bad_name''))
             (IdentifierNode (9, 17) (js ''bad_name'')))"
    by code_simp+
  have n2: "node_at prog_import_default [0, 0, 0] = Some (IdentifierNode (7, 15) (js ''bad_name''))"
    and p2: "parent_at prog_import_default [0, 0, 0] =
      Some (ImportDefaultSpecifierNode (7, 15) (IdentifierNode (7, 15) (js ''bad_name'')))"
    and k2: "range_toString (7, 15) \<notin> reportedNodes fresh"
    by code_simp+
  have n3: "node_at prog_import_same_name [0, 0, 0] = Some (IdentifierNode (9, 17) (js ''bad_name''))"
    and p3: "parent_at prog_import_same_name [0, 0, 0] = Some ?same"
    and k3: "range_toString (9, 17) \<notin> reportedNodes fresh"
    by code_simp+
  have pat: "pattern ?env = js ''^[a-z]+$''" and pat': "pattern ?off = js ''^[a-z]+$''"
    by (simp_all add: example_env_def)
  have fr: "reports fresh = []" by (simp add: fresh_def)
  from imported_name_reported [where env = ?env and root = prog_import_named
      and p = "[0, 0, 1]" and r = "(9, 17)" and name = "js ''bad_name''" and st = fresh
      and parent = "ImportSpecifierNode (9, 17) (IdentifierNode (9, 17) (js ''bad_name''))
             (IdentifierNode (9, 17) (js ''bad_name''))"]
    o n1 p1
  have h1: "Identifier_handler ?env prog_import_named [0, 0, 1] fresh = (Normal, fresh)"
    by simp
  from imported_name_reported [where env = ?env and root = prog_import_default
      and p = "[0, 0, 0]" and r = "(7, 15)" and name = "js ''bad_name''" and st = fresh
      and parent = "ImportDefaultSpecifierNode (7, 15) (IdentifierNode (7, 15) (js ''bad_name''))"]
    n2 p2 i k2
  have h2: "reports (snd (Identifier_handler ?env prog_import_default [0, 0, 0] fresh)) =
     [\<lparr>data_name = Some (js ''bad_name''), data_pattern = js ''^[a-z]+$'',
       messageId = notMatch, reported = IdentifierNode (7, 15) (js ''bad_name'')\<rparr>]"
    by (simp add: pat fr)
  from imported_name_reported [where env = ?off and root = prog_import_same_name
      and p = "[0, 0, 0]" and r = "(9, 17)" and name = "js ''bad_name''" and st = fresh
      and pr = "(9, 29)" and imported = "IdentifierNode (9, 17) (js ''bad_name'')"
      and loc = "IdentifierNode (21, 29) (js ''bad_name'')"]
    o' n3 p3 i' k3
  have h3: "reports (snd (Identifier_handler ?off prog_import_same_name [0, 0, 0] fresh)) =
     [\<lparr>data_name = Some (js ''bad_name''), data_pattern = js ''^[a-z]+$'',
       messageId = notMatch, reported = IdentifierNode (9, 17) (js ''bad_name'')\<rparr>]"
    by (simp add: pat' fr)
  from l1 l2 l3 h1 h2 n3 p3 h3 show ?thesis by (intro conjI)
qed

subsection \<open>Shorthand entries of object patterns\<close>

lemma Property_child:
  assumes "resolve root p = Some (n # PropertyNode pr key val sh # up)"
  shows "n = val \<or> is_key_of (PropertyNode pr key val sh) (last p)"
proof -
  from resolve_slot [OF assms]
  have "last p < 2" and "[key, val] ! last p = n" by simp_all
  then show ?thesis by (cases "last p = 0") (auto simp: less_2_cases_iff nth_Cons')
qed

text \<open>
  C3 as stated fails on its own example: with \<open>ignoreDestructuring\<close>, the run over
  \<^verbatim>\<open>const { bad_name = 1 } = obj;\<close> under the pattern \<open>^[a-z]+$\<close> emits no diagnostic,
  though the name of both identifiers of the entry fails the pattern.
\<close>

theorem shorthand_default_counterexample:
  "node_at prog_shorthand_default [0, 0, 0, 0, 0] = Some (IdentifierNode (8, 16) (js ''bad_name'')) \<and>
   node_at prog_shorthand_default [0, 0, 0, 0, 1, 0] = Some (IdentifierNode (8, 16) (js ''bad_name'')) \<and>
   isInvalid (example_env ignore_destructuring) (js ''bad_name'') \<and>
   ignoreDestructuring (example_env ignore_destructuring) \<and>
   lint (RegExp_u no_other_patterns) (Some (js ''^[a-z]+$'')) (Some ignore_destructuring) prog_shorthand_default =
     Inr (Normal, fresh)"
  by code_simp

text \<open>
  C3, amended. With \<open>ignoreDestructuring\<close>, the identifiers of a shorthand entry of an
  object pattern get no diagnostic, without a default (key and value have the same name) and
  with one (the value is a default-value pattern, which has no name): neither the key or the
  value of the entry, nor the identifier before the default. Without \<open>ignoreDestructuring\<close>,
  the key of a shorthand entry with a default is reported when its name fails the pattern.
\<close>

theorem shorthand_entries:
  "(ignoreDestructuring env \<and> node_at root p = Some (IdentifierNode r name) \<and>
    parent_at root p = Some (PropertyNode pr key val sh) \<and>
    map_option type_of (grandparent_at root p) = Some ObjectPattern \<and>
    (name_of val = name_of key \<or> name_of val = None) \<longrightarrow>
      Identifier_handler env root p st = (Normal, st)) \<and>
   (ignoreDestructuring env \<and> node_at root p = Some (IdentifierNode r name) \<and>
    parent_at root p = Some parent \<and> type_of parent = AssignmentPattern \<and>
    map_option type_of (grandparent_at root p) = Some Property \<and>
    isInsideObjectPattern (ancestors_at root p) \<longrightarrow>
      Identifier_handler env root p st = (Normal, st)) \<and>
   (\<not> ignoreDestructuring env \<and> node_at root p = Some (IdentifierNode r name) \<and>
    parent_at root p = Some (PropertyNode pr key val True) \<and>
    map_option type_of (grandparent_at root p) = Some ObjectPattern \<and>
    left_of val \<noteq> None \<and> isInvalid env name \<and> range_toString r \<notin> reportedNodes st \<longrightarrow>
      reports (snd (Identifier_handler env root p st)) =
        reports st @ [\<lparr>data_name = Some name, data_pattern = pattern env, messageId = notMatch,
                       reported = IdentifierNode r name\<rparr>])"
proof (intro conjI impI)
  assume a: "ignoreDestructuring env \<and> node_at root p = Some (IdentifierNode r name) \<and>
    parent_at root p = Some (PropertyNode pr key val sh) \<and>
    map_option type_of (grandparent_at root p) = Some ObjectPattern \<and>
    (name_of val = name_of key \<or> name_of val = None)"
  then obtain g where g: "grandparent_at root p = Some g" "type_of g = ObjectPattern"
    by auto
  with a obtain up where
    c: "resolve root p = Some (IdentifierNode r name # PropertyNode pr key val sh # g # up)"
    using chain3 by blast
  from Property_child [OF c]
  have k: "name_of val = None \<longrightarrow> is_key_of (PropertyNode pr key val sh) (last p)"
    by auto
  have "destructuredEntry env (IdentifierNode r name) name (last p) (PropertyNode pr key val sh) st =
      (Return, st) \<or>
    destructuredEntry env (IdentifierNode r name) name (last p) (PropertyNode pr key val sh) st =
      (Normal, st)"
    using a k by (auto simp: Let_def)
  then have "objectEntry env (IdentifierNode r name) name (last p) (PropertyNode pr key val sh)
      (g # up) st = (Normal, st)"
    using a g by (auto simp: objectEntry_def)
  then show "Identifier_handler env root p st = (Normal, st)"
    by (simp add: handler_at [OF c])
next
  assume a: "ignoreDestructuring env \<and> node_at root p = Some (IdentifierNode r name) \<and>
    parent_at root p = Some parent \<and> type_of parent = AssignmentPattern \<and>
    map_option type_of (grandparent_at root p) = Some Property \<and>
    isInsideObjectPattern (ancestors_at root p)"
  then obtain g where g: "grandparent_at root p = Some g" "type_of g = Property"
    by auto
  with a obtain up where
    c: "resolve root p = Some (IdentifierNode r name # parent # g # up)"
    using chain3 by blast
  then have anc: "ancestors_at root p = parent # g # up" by (simp add: ancestors_at_def)
  from a have "isInsideObjectPattern (ancestors_at root p)" by blast
  then have "isInsideObjectPattern (parent # g # up)" unfolding anc .
  then have "objectEntry env (IdentifierNode r name) name (last p) parent (g # up) st = (Normal, st)"
    using a g unfolding objectEntry_def by simp
  then show "Identifier_handler env root p st = (Normal, st)"
    using a by (simp add: handler_at [OF c])
next
  assume a: "\<not> ignoreDestructuring env \<and> node_at root p = Some (IdentifierNode r name) \<and>
    parent_at root p = Some (PropertyNode pr key val True) \<and>
    map_option type_of (grandparent_at root p) = Some ObjectPattern \<and>
    left_of val \<noteq> None \<and> isInvalid env name \<and> range_toString r \<notin> reportedNodes st"
  then obtain g where g: "grandparent_at root p = Some g" "type_of g = ObjectPattern"
    by auto
  with a obtain up where
    c: "resolve root p = Some (IdentifierNode r name # PropertyNode pr key val True # g # up)"
    using chain3 by blast
  from a have v: "name_of val = None" by (cases val) auto
  with Property_child [OF c]
  have k: "is_key_of (PropertyNode pr key val True) (last p)" by auto
  have "destructuredEntry env (IdentifierNode r name) name (last p) (PropertyNode pr key val True) st =
      (Return, report env (IdentifierNode r name) st)"
    using a k v by (auto simp: Let_def)
  then have "objectEntry env (IdentifierNode r name) name (last p) (PropertyNode pr key val True)
      (g # up) st = (Normal, report env (IdentifierNode r name) st)"
    using g by (simp add: objectEntry_def)
  then have "Identifier_handler env root p st = (Normal, report env (IdentifierNode r name) st)"
    by (simp add: handler_at [OF c])
  then show "reports (snd (Identifier_handler env root p st)) =
        reports st @ [\<lparr>data_name = Some name, data_pattern = pattern env, messageId = notMatch,
                       reported = IdentifierNode r name\<rparr>]"
    using a by (simp add: report_fresh_range)
qed

text \<open>
  The key of \<^verbatim>\<open>const { bad_name } = obj;\<close>, and the key and the identifier before the
  default of \<^verbatim>\<open>const { bad_name = 1 } = obj;\<close>, with and without \<open>ignoreDestructuring\<close>.
\<close>

theorem shorthand_entries_witness:
  "Identifier_handler (example_env ignore_destructuring) prog_shorthand [0, 0, 0, 0, 0] fresh =
     (Normal, fresh) \<and>
   Identifier_handler (example_env ignore_destructuring) prog_shorthand_default [0, 0, 0, 0, 0] fresh =
     (Normal, fresh) \<and>
   Identifier_handler (example_env ignore_destructuring) prog_shorthand_default [0, 0, 0, 0, 1, 0]
     fresh = (Normal, fresh) \<and>
   reports (snd (Identifier_handler (example_env no_options) prog_shorthand_default [0, 0, 0, 0, 0]
                   fresh)) =
     [\<lparr>data_name = Some (js ''bad_name''), data_pattern = js ''^[a-z]+$'', messageId = notMatch,
       reported = IdentifierNode (8, 16) (js ''bad_name'')\<rparr>] \<and>
   lint (RegExp_u no_other_patterns) (Some (js ''^[a-z]+$'')) (Some ignore_destructuring) prog_shorthand =
     Inr (Normal, fresh) \<and>
   lint (RegExp_u no_other_patterns) (Some (js ''^[a-z]+$'')) None prog_shorthand_default =
     Inr (Normal,
       \<lparr>reports = [\<lparr>data_name = Some (js ''bad_name''), data_pattern = js ''^[a-z]+$'',
                    messageId = notMatch, reported = IdentifierNode (8, 16) (js ''bad_name'')\<rparr>],
        reportedNodes = {''8,16''}\<rparr>)"
proof -
  let ?ign = "example_env ignore_destructuring"
  let ?env = "example_env no_options"
  let ?plain = "PropertyNode (8, 16) (IdentifierNode (8, 16) (js ''bad_name''))
                  (IdentifierNode (8, 16) (js ''bad_name'')) True"
  let ?dflt = "AssignmentPatternNode (8, 20) (IdentifierNode (8, 16) (js ''bad_name''))
                 (OtherNode ''Literal'' (19, 20) [])"
  have ign: "ignoreDestructuring ?ign" and env: "\<not> ignoreDestructuring ?env"
    by code_simp+
  have inv: "isInvalid ?env (js ''bad_name'')" by code_simp
  have pat: "pattern ?env = js ''^[a-z]+$''" and fr: "reports fresh = []"
    and key: "range_toString (8, 16) \<notin> reportedNodes fresh"
    by code_simp+
  have n1: "node_at prog_shorthand [0, 0, 0, 0, 0] = Some (IdentifierNode (8, 16) (js ''bad_name''))"
    and p1: "parent_at prog_shorthand [0, 0, 0, 0, 0] = Some ?plain"
    and g1: "map_option type_of (grandparent_at prog_shorthand [0, 0, 0, 0, 0]) = Some ObjectPattern"
    by code_simp+
  have n2: "node_at prog_shorthand_default [0, 0, 0, 0, 0] = Some (IdentifierNode (8, 16) (js ''bad_name''))"
    and p2: "parent_at prog_shorthand_default [0, 0, 0, 0, 0] =
        Some (PropertyNode (8, 20) (IdentifierNode (8, 16) (js ''bad_name'')) ?dflt True)"
    and g2: "map_option type_of (grandparent_at prog_shorthand_default [0, 0, 0, 0, 0]) =
        Some ObjectPattern"
    by code_simp+
  have n3: "node_at prog_shorthand_default [0, 0, 0, 0, 1, 0] =
        Some (IdentifierNode (8, 16) (js ''bad_name''))"
    and p3: "parent_at prog_shorthand_default [0, 0, 0, 0, 1, 0] = Some ?dflt"
    and g3: "map_option type_of (grandparent_at prog_shorthand_default [0, 0, 0, 0, 1, 0]) =
        Some Property"
    and i3: "isInsideObjectPattern (ancestors_at prog_shorthand_default [0, 0, 0, 0, 1, 0])"
    by code_simp+
  have l1: "lint (RegExp_u no_other_patterns) (Some (js ''^[a-z]+$'')) (Some ignore_destructuring) prog_shorthand =
     Inr (Normal, fresh)"
    by code_simp
  have l2: "lint (RegExp_u no_other_patterns) (Some (js ''^[a-z]+$'')) None prog_shorthand_default =
     Inr (Normal,
       \<lparr>reports = [\<lparr>data_name = Some (js ''bad_name''), data_pattern = js ''^[a-z]+$'',
                    messageId = notMatch, reported = IdentifierNode (8, 16) (js ''bad_name'')\<rparr>],
        reportedNodes = {''8,16''}\<rparr>)"
    by code_simp
  from shorthand_entries [where env = ?ign and root = prog_shorthand and p = "[0, 0, 0, 0, 0]"
      and r = "(8, 16)" and name = "js ''bad_name''" and st = fresh and pr = "(8, 16)"
      and key = "IdentifierNode (8, 16) (js ''bad_name'')" and val = "IdentifierNode (8, 16) (js ''bad_name'')"
      and sh = True] ign n1 p1 g1
  have h1: "Identifier_handler ?ign prog_shorthand [0, 0, 0, 0, 0] fresh = (Normal, fresh)"
    by simp
  from shorthand_entries [where env = ?ign and root = prog_shorthand_default
      and p = "[0, 0, 0, 0, 0]" and r = "(8, 16)" and name = "js ''bad_name''" and st = fresh
      and pr = "(8, 20)" and key = "IdentifierNode (8, 16) (js ''bad_name'')" and val = ?dflt
      and sh = True] ign n2 p2 g2
  have h2: "Identifier_handler ?ign prog_shorthand_default [0, 0, 0, 0, 0] fresh = (Normal, fresh)"
    by simp
  from shorthand_entries [where env = ?ign and root = prog_shorthand_default
      and p = "[0, 0, 0, 0, 1, 0]" and r = "(8, 16)" and name = "js ''bad_name''" and st = fresh
      and parent = ?dflt] ign n3 p3 g3 i3
  have h3: "Identifier_handler ?ign prog_shorthand_default [0, 0, 0, 0, 1, 0] fresh = (Normal, fresh)"
    by simp
  from shorthand_entries [where env = ?env and root = prog_shorthand_default
      and p = "[0, 0, 0, 0, 0]" and r = "(8, 16)" and name = "js ''bad_name''" and st = fresh
      and pr = "(8, 20)" and key = "IdentifierNode (8, 16) (js ''bad_name'')" and val = ?dflt]
    env n2 p2 g2 inv key
  have h4: "reports (snd (Identifier_handler ?env prog_shorthand_default [0, 0, 0, 0, 0] fresh)) =
     [\<lparr>data_name = Some (js ''bad_name''), data_pattern = js ''^[a-z]+$'', messageId = notMatch,
       reported = IdentifierNode (8, 16) (js ''bad_name'')\<rparr>]"
    by (simp add: pat fr)
  from h1 h2 h3 h4 l1 l2 show ?thesis by blast
qed

subsection \<open>Member accesses\<close>

lemma lower_case_pattern: "parse_pattern (js ''^[a-z]+$'') = Some lower_case"
  by code_simp

lemma create_example:
  "create (RegExp_u host) (Some (js ''^[a-z]+$'')) None = Inr (example_env no_options)"
  "create (RegExp_u host) (Some (js ''^[a-z]+$'')) (Some opts) = Inr (example_env opts)"
  by (simp_all add: create_def RegExp_u_def lower_case_pattern example_env_def no_options_def
      Boolean_def)

text \<open>
  C4 as stated fails: with \<open>properties: true\<close>, the run over \<^verbatim>\<open>obj.bad_name;\<close> under the
  pattern \<open>^[a-z]+$\<close> emits no diagnostic for the property \<open>bad_name\<close>.
\<close>

theorem member_read_counterexample:
  "node_at prog_member_read [0, 0, 1] = Some (IdentifierNode (4, 12) (js ''bad_name'')) \<and>
   map_option type_of (parent_at prog_member_read [0, 0, 1]) = Some MemberExpression \<and>
   isInvalid (example_env properties_only) (js ''bad_name'') \<and>
   checkProperties (example_env properties_only) \<and>
   lint (RegExp_u no_other_patterns) (Some (js ''^[a-z]+$'')) (Some properties_only) prog_member_read = Inr (Normal, fresh)"
  by code_simp

text \<open>
  C4, amended. Property checking is off when the options do not set \<open>properties\<close>. While
  it is off, an identifier whose parent is a member access gets no diagnostic. While it is
  on, such an identifier whose name fails the pattern gets a diagnostic exactly when the
  object of the access is an identifier of that name, or the parent of the access is an
  assignment whose left side is a member access with a property of that name, or an
  assignment whose right side is no member access.
\<close>

theorem member_access_properties:
  "(create new_RegExp inputPattern opts = Inr env' \<and> Option.bind opts opt_properties = None \<longrightarrow>
      \<not> checkProperties env') \<and>
   (\<not> checkProperties env \<and> node_at root p = Some (IdentifierNode r name) \<and>
    parent_at root p = Some parent \<and> type_of parent = MemberExpression \<longrightarrow>
      Identifier_handler env root p st = (Normal, st)) \<and>
   (checkProperties env \<and> node_at root p = Some (IdentifierNode r name) \<and>
    parent_at root p = Some (MemberExpressionNode pr obj prp) \<and> isInvalid env name \<and>
    range_toString r \<notin> reportedNodes st \<longrightarrow>
      reports (snd (Identifier_handler env root p st)) =
        reports st @
        (if (case grandparent_at root p of
               None \<Rightarrow> False
             | Some effectiveParent \<Rightarrow>
                 type_of obj = Identifier \<and> name_of obj = Some name \<or>
                 assignsToPropertyNamed effectiveParent name \<or>
                 assignsNoMember effectiveParent)
         then [\<lparr>data_name = Some name, data_pattern = pattern env, messageId = notMatch,
                 reported = IdentifierNode r name\<rparr>]
         else []))"
proof (intro conjI impI)
  assume "create new_RegExp inputPattern opts = Inr env' \<and> Option.bind opts opt_properties = None"
  then show "\<not> checkProperties env'"
    by (auto simp: create_def Boolean_def Let_def split: option.splits)
next
  assume a: "\<not> checkProperties env \<and> node_at root p = Some (IdentifierNode r name) \<and>
    parent_at root p = Some parent \<and> type_of parent = MemberExpression"
  then obtain up where c: "resolve root p = Some (IdentifierNode r name # parent # up)"
    using parent_at_resolve by blast
  from a obtain ar obj prp where "parent = MemberExpressionNode ar obj prp"
    by (cases parent) auto
  then show "Identifier_handler env root p st = (Normal, st)"
    using a by (auto simp: handler_at [OF c] split: list.splits)
next
  assume a: "checkProperties env \<and> node_at root p = Some (IdentifierNode r name) \<and>
    parent_at root p = Some (MemberExpressionNode pr obj prp) \<and> isInvalid env name \<and>
    range_toString r \<notin> reportedNodes st"
  let ?node = "IdentifierNode r name"
  let ?d = "\<lparr>data_name = Some name, data_pattern = pattern env, messageId = notMatch,
             reported = ?node\<rparr>"
  from a have rep: "reports (report env ?node st) = reports st @ [?d]"
    by (simp add: report_fresh_range)
  show "reports (snd (Identifier_handler env root p st)) =
        reports st @
        (if (case grandparent_at root p of
               None \<Rightarrow> False
             | Some effectiveParent \<Rightarrow>
                 type_of obj = Identifier \<and> name_of obj = Some name \<or>
                 assignsToPropertyNamed effectiveParent name \<or>
                 assignsNoMember effectiveParent)
         then [?d] else [])"
  proof (cases "grandparent_at root p")
    case None
    with a have "resolve root p = Some [?node, MemberExpressionNode pr obj prp]"
      using chain2_only by blast
    then show ?thesis using None by (simp add: handler_at)
  next
    case (Some eff)
    with a obtain up where
      c: "resolve root p = Some (?node # MemberExpressionNode pr obj prp # eff # up)"
      using chain3 by blast
    show ?thesis using a Some rep by (auto simp: handler_at [OF c])
  qed
qed

text \<open>
  The property of \<^verbatim>\<open>obj.bad_name = 1;\<close> with and without \<open>properties: true\<close>, and the
  property of \<^verbatim>\<open>obj.bad_name;\<close> with it.
\<close>

theorem member_access_properties_witness:
  "lint (RegExp_u no_other_patterns) (Some (js ''^[a-z]+$'')) None prog_member_assign = Inr (Normal, fresh) \<and>
   Identifier_handler (example_env no_options) prog_member_assign [0, 0, 0, 1] fresh =
     (Normal, fresh) \<and>
   lint (RegExp_u no_other_patterns) (Some (js ''^[a-z]+$'')) (Some properties_only) prog_member_assign =
     Inr (Normal,
       \<lparr>reports = [\<lparr>data_name = Some (js ''bad_name''), data_pattern = js ''^[a-z]+$'',
                    messageId = notMatch, reported = IdentifierNode (4, 12) (js ''bad_name'')\<rparr>],
        reportedNodes = {''4,12''}\<rparr>) \<and>
   reports (snd (Identifier_handler (example_env properties_only) prog_member_assign [0, 0, 0, 1]
                   fresh)) =
     [\<lparr>data_name = Some (js ''bad_name''), data_pattern = js ''^[a-z]+$'', messageId = notMatch,
       reported = IdentifierNode (4, 12) (js ''bad_name'')\<rparr>] \<and>
   reports (snd (Identifier_handler (example_env properties_only) prog_member_read [0, 0, 1]
                   fresh)) = [] \<and>
   create (RegExp_u no_other_patterns) (Some (js ''^[a-z]+$'')) None = Inr (example_env no_options) \<and>
   \<not> checkProperties (example_env no_options)"
proof -
  let ?on = "example_env properties_only"
  let ?off = "example_env no_options"
  let ?access = "MemberExpressionNode (0, 12) (IdentifierNode (0, 3) (js ''obj''))
                   (IdentifierNode (4, 12) (js ''bad_name''))"
  have on: "checkProperties ?on" and off: "\<not> checkProperties ?off"
    and inv: "isInvalid ?on (js ''bad_name'')"
    and pat: "pattern ?on = js ''^[a-z]+$''" and fr: "reports fresh = []"
    and key: "range_toString (4, 12) \<notin> reportedNodes fresh"
    by code_simp+
  have ne: "js ''obj'' \<noteq> js ''bad_name''"
    by code_simp
  have cr: "create (RegExp_u no_other_patterns) (Some (js ''^[a-z]+$'')) None = Inr ?off"
    by (rule create_example)
  have n1: "node_at prog_member_assign [0, 0, 0, 1] = Some (IdentifierNode (4, 12) (js ''bad_name''))"
    and p1: "parent_at prog_member_assign [0, 0, 0, 1] = Some ?access"
    and g1: "grandparent_at prog_member_assign [0, 0, 0, 1] =
        Some (AssignmentExpressionNode (0, 16) ?access (OtherNode ''Literal'' (15, 16) []))"
    by code_simp+
  have n2: "node_at prog_member_read [0, 0, 1] = Some (IdentifierNode (4, 12) (js ''bad_name''))"
    and p2: "parent_at prog_member_read [0, 0, 1] = Some ?access"
    and g2: "grandparent_at prog_member_read [0, 0, 1] =
        Some (OtherNode ''ExpressionStatement'' (0, 13) [?access])"
    by code_simp+
  have l1: "lint (RegExp_u no_other_patterns) (Some (js ''^[a-z]+$'')) None prog_member_assign = Inr (Normal, fresh)"
    by code_simp
  have l2: "lint (RegExp_u no_other_patterns) (Some (js ''^[a-z]+$'')) (Some properties_only) prog_member_assign =
     Inr (Normal,
       \<lparr>reports = [\<lparr>data_name = Some (js ''bad_name''), data_pattern = js ''^[a-z]+$'',
                    messageId = notMatch, reported = IdentifierNode (4, 12) (js ''bad_name'')\<rparr>],
        reportedNodes = {''4,12''}\<rparr>)"
    by code_simp
  from member_access_properties [where new_RegExp = "RegExp_u no_other_patterns" and inputPattern = "Some (js ''^[a-z]+$'')"
      and opts = None and env' = ?off] cr
  have h0: "\<not> checkProperties ?off" by simp
  from member_access_properties [where env = ?off and root = prog_member_assign
      and p = "[0, 0, 0, 1]" and r = "(4, 12)" and name = "js ''bad_name''" and st = fresh
      and parent = ?access] off n1 p1
  have h1: "Identifier_handler ?off prog_member_assign [0, 0, 0, 1] fresh = (Normal, fresh)"
    by simp
  from member_access_properties [where env = ?on and root = prog_member_assign
      and p = "[0, 0, 0, 1]" and r = "(4, 12)" and name = "js ''bad_name''" and st = fresh
      and pr = "(0, 12)" and obj = "IdentifierNode (0, 3) (js ''obj'')"
      and prp = "IdentifierNode (4, 12) (js ''bad_name'')"] on n1 p1 g1 inv key ne
  have h2: "reports (snd (Identifier_handler ?on prog_member_assign [0, 0, 0, 1] fresh)) =
     [\<lparr>data_name = Some (js ''bad_name''), data_pattern = js ''^[a-z]+$'', messageId = notMatch,
       reported = IdentifierNode (4, 12) (js ''bad_name'')\<rparr>]"
    by (simp add: pat fr)
  from member_access_properties [where env = ?on and root = prog_member_read
      and p = "[0, 0, 1]" and r = "(4, 12)" and name = "js ''bad_name''" and st = fresh
      and pr = "(0, 12)" and obj = "IdentifierNode (0, 3) (js ''obj'')"
      and prp = "IdentifierNode (4, 12) (js ''bad_name'')"] on n2 p2 g2 inv key ne
  have h3: "reports (snd (Identifier_handler ?on prog_member_read [0, 0, 1] fresh)) = []"
    by (simp add: fr)
  from l1 l2 h0 h1 h2 h3 cr show ?thesis by blast
qed

subsection \<open>The pattern is searched for\<close>















end
